theory Spec2Isabelle
  imports Complex_Main
begin

section \<open>Python values shared by the modules\<close>

text \<open>
  A Python exception is kept as its class name and its message: \<open>type(e).__name__\<close> is
  \<open>exn_type\<close> and \<open>str(e)\<close> is \<open>exn_msg\<close>. Every \<open>except Exception\<close> of the source is a
  case split on a sum whose left summand carries such a value. Python strings are byte
  strings in UTF-8 here, so a Chinese literal of the source is written as its bytes.
\<close>

record exn =
  exn_type :: string
  exn_msg :: string

definition str :: "exn \<Rightarrow> string" where
  "str e = exn_msg e"

section \<open>The retry decorator (data\_fetcher/base.py, data\_fetcher/data\_fetcher.py)\<close>

text \<open>
  \<^verbatim>\<open>
  def retry(max_retries: int = 3, retry_delay: int = 1):
      def decorator(func):
          def wrapper(*args, **kwargs):
              for attempt in range(max_retries):
                  try:
                      return func(*args, **kwargs)
                  except Exception as e:
                      logger.error(...)
                      if attempt < max_retries - 1:
                          logger.info(...)
                          time.sleep(retry_delay)
                      else:
                          logger.error(...)
                          return None
              return None
  \<close>
  The wrapped callable acts on a world \<open>'s\<close> and either raises or returns a Python value
  (\<open>None\<close> of Python is \<open>None\<close>). \<open>time.sleep\<close> is a parameter acting on the same world.
  The run of the wrapper records what it returned, the world it left, how often it
  called \<open>func\<close> and the durations it slept, in order. Log lines are not modelled.
\<close>

record ('a, 's) retry_run =
  returned :: "'a option"
  world :: 's
  calls :: nat
  sleeps :: "int list"

function retry_loop ::
  "(int \<Rightarrow> 's \<Rightarrow> 's) \<Rightarrow> int \<Rightarrow> int \<Rightarrow> ('s \<Rightarrow> (exn + 'a option) \<times> 's) \<Rightarrow> int \<Rightarrow>
   ('a, 's) retry_run \<Rightarrow> ('a, 's) retry_run" where
  "retry_loop time_sleep max_retries retry_delay func attempt run =
     (if attempt < max_retries then
        (case func (world run) of
           (Inr v, s') \<Rightarrow> run\<lparr>returned := v, world := s', calls := calls run + 1\<rparr>
         | (Inl e, s') \<Rightarrow>
             if attempt < max_retries - 1 then
               retry_loop time_sleep max_retries retry_delay func (attempt + 1)
                 (run\<lparr>world := time_sleep retry_delay s', calls := calls run + 1,
                      sleeps := sleeps run @ [retry_delay]\<rparr>)
             else run\<lparr>returned := None, world := s', calls := calls run + 1\<rparr>)
      else run\<lparr>returned := None\<rparr>)"
  by pat_completeness auto
termination
  by (relation "measure (\<lambda>(ts, m, d, f, a, r). nat (m - a))") auto

declare retry_loop.simps [simp del]

definition retry ::
  "(int \<Rightarrow> 's \<Rightarrow> 's) \<Rightarrow> int \<Rightarrow> int \<Rightarrow> ('s \<Rightarrow> (exn + 'a option) \<times> 's) \<Rightarrow> 's \<Rightarrow>
   ('a, 's) retry_run" where
  "retry time_sleep max_retries retry_delay func s =
     retry_loop time_sleep max_retries retry_delay func 0
       \<lparr>returned = None, world = s, calls = 0, sleeps = []\<rparr>"

text \<open>A callable that raises whatever the world is.\<close>

definition always_raises :: "('s \<Rightarrow> (exn + 'a option) \<times> 's) \<Rightarrow> bool" where
  "always_raises func = (\<forall>s. \<exists>e s'. func s = (Inl e, s'))"

section \<open>CacheManager (data\_fetcher/base.py, data\_fetcher/data\_fetcher.py)\<close>

text \<open>
  The cache directory is a map from paths to files. A file has its modification time
  (\<open>st_mtime\<close>, seconds, an exact number here where Python has a float) and what
  \<open>open(cache_path, 'rb')\<close> followed by reading gives: the bytes, or the exception raised.
  \<open>pickle.load\<close> is a parameter from bytes to the unpickled data or the exception raised.
  \<open>exists\<close> is the lookup in the map and \<open>stat\<close> reads the field of a file that is there.
  \<open>unlink\<close> removes the file from the map, or raises and leaves it (the path is a
  directory, or the cache directory cannot be written): \<open>unlink_error\<close> is the exception,
  \<open>None\<close> when the file can be removed. In \<open>load_cache\<close> the call of \<open>unlink\<close> (line 47) is
  before the \<open>try\<close>, so its exception leaves the function; a result is \<open>Inl\<close> of the
  exception that leaves it, or \<open>Inr\<close> of what it returns.
\<close>

record cache_file =
  st_mtime :: real
  stored :: "exn + string"
  unlink_error :: "exn option"

type_synonym filesystem = "string \<rightharpoonup> cache_file"

definition get_cache_path :: "string \<Rightarrow> string \<Rightarrow> string" where
  \<comment> \<open>\<^verbatim>\<open>CACHE_DIR / f"{data_type}_{symbol}.pkl"\<close> with \<^verbatim>\<open>CACHE_DIR = Path("cache")\<close>\<close>
  "get_cache_path symbol data_type = ''cache/'' @ data_type @ ''_'' @ symbol @ ''.pkl''"

definition read_pickle :: "(string \<Rightarrow> exn + 'df) \<Rightarrow> cache_file \<Rightarrow> exn + 'df" where
  \<comment> \<open>\<^verbatim>\<open>with open(cache_path, 'rb') as f: return pickle.load(f)\<close>\<close>
  "read_pickle pickle_load f =
     (case stored f of Inl e \<Rightarrow> Inl e | Inr bytes \<Rightarrow> pickle_load bytes)"

definition load_cache ::
  "(string \<Rightarrow> exn + 'df) \<Rightarrow> real \<Rightarrow> filesystem \<Rightarrow> string \<Rightarrow> string \<Rightarrow> int \<Rightarrow>
   (exn + 'df option) \<times> filesystem" where
  "load_cache pickle_load now fs symbol data_type expiry_hours =
     (let cache_path = get_cache_path symbol data_type in
      case fs cache_path of
        None \<Rightarrow> (Inr None, fs)
      | Some f \<Rightarrow>
          if now - st_mtime f > of_int (expiry_hours * 3600) then
            (case unlink_error f of
               Some e \<Rightarrow> (Inl e, fs)
             | None \<Rightarrow> (Inr None, fs(cache_path := None)))
          else (case read_pickle pickle_load f of
                  Inr data \<Rightarrow> (Inr (Some data), fs)
                | Inl e \<Rightarrow> (Inr None, fs)))"

section \<open>StockDataFetcher.get\_stock\_data (data\_fetcher/data\_fetcher.py, stock\_data\_fetcher.py)\<close>

text \<open>
  The class attribute \<open>_cache\<close> is a dictionary from symbols to data frames; it lives as
  long as the process. \<open>ak.stock_zh_a_hist\<close> is a parameter acting on the outside world
  \<open>'w\<close> (the date range it is given is read from the clock of that world).
  \<open>get_stock_data_body\<close> is the method as written, \<open>get_stock_data\<close> the method under its
  decorator \<open>@retry(max_retries=3, retry_delay=1)\<close>.
\<close>

record ('df, 'w) fetcher_state =
  class_cache :: "string \<rightharpoonup> 'df"
  outside :: 'w

definition get_stock_data_body ::
  "(string \<Rightarrow> 'w \<Rightarrow> (exn + 'df) \<times> 'w) \<Rightarrow> string \<Rightarrow> ('df, 'w) fetcher_state \<Rightarrow>
   (exn + 'df option) \<times> ('df, 'w) fetcher_state" where
  "get_stock_data_body stock_zh_a_hist symbol st =
     (case class_cache st symbol of
        Some df \<Rightarrow> (Inr (Some df), st)
      | None \<Rightarrow>
          (case stock_zh_a_hist symbol (outside st) of
             (Inr df, w') \<Rightarrow>
               (Inr (Some df), st\<lparr>class_cache := (class_cache st)(symbol \<mapsto> df), outside := w'\<rparr>)
           | (Inl e, w') \<Rightarrow> (Inr None, st\<lparr>outside := w'\<rparr>)))"

definition get_stock_data ::
  "(int \<Rightarrow> ('df, 'w) fetcher_state \<Rightarrow> ('df, 'w) fetcher_state) \<Rightarrow>
   (string \<Rightarrow> 'w \<Rightarrow> (exn + 'df) \<times> 'w) \<Rightarrow> string \<Rightarrow> ('df, 'w) fetcher_state \<Rightarrow>
   ('df, ('df, 'w) fetcher_state) retry_run" where
  "get_stock_data time_sleep stock_zh_a_hist symbol st =
     retry time_sleep 3 1 (get_stock_data_body stock_zh_a_hist symbol) st"

text \<open>A sequence of calls, one after the other, each on the state the last one left.\<close>

fun get_stock_data_seq ::
  "(int \<Rightarrow> ('df, 'w) fetcher_state \<Rightarrow> ('df, 'w) fetcher_state) \<Rightarrow>
   (string \<Rightarrow> 'w \<Rightarrow> (exn + 'df) \<times> 'w) \<Rightarrow> string list \<Rightarrow> ('df, 'w) fetcher_state \<Rightarrow>
   ('df, 'w) fetcher_state" where
  "get_stock_data_seq time_sleep stock_zh_a_hist [] st = st"
| "get_stock_data_seq time_sleep stock_zh_a_hist (symbol # symbols) st =
     get_stock_data_seq time_sleep stock_zh_a_hist symbols
       (world (get_stock_data time_sleep stock_zh_a_hist symbol st))"

section \<open>The stream assembler process\_response (ai\_analyzer/ai\_analyzer.py)\<close>

text \<open>
  A chunk has its list of choices; a choice has its delta (or \<open>None\<close>) and its finish
  reason; a delta has its reasoning fragment and its content fragment, each \<open>None\<close> when
  the attribute is missing or is \<open>None\<close>. Iterating the response yields a chunk or raises
  (a transport error in the middle of the stream); the iteration ends where the list ends.
\<close>

record delta =
  reasoning_content :: "string option"
  content :: "string option"

record choice =
  delta :: "delta option"
  finish_reason :: "string option"

record chunk =
  choices :: "choice list"

datatype stream_event = Yield chunk | Raise exn

text \<open>
  The loop of lines 35 to 47, on the three local variables \<open>reasoning_content\<close>,
  \<open>content\<close> and \<open>finished\<close>; \<open>Inl\<close> is the exception that leaves the loop.
\<close>

fun consume ::
  "string \<Rightarrow> string \<Rightarrow> stream_event list \<Rightarrow> exn + (string \<times> string \<times> bool)" where
  "consume reasoning acc [] = Inr (reasoning, acc, False)"
| "consume reasoning acc (Raise e # rest) = Inl e"
| "consume reasoning acc (Yield ch # rest) =
     (case choices ch of
        [] \<Rightarrow> consume reasoning acc rest
      | first_choice # _ \<Rightarrow>
          (case delta first_choice of
             None \<Rightarrow> consume reasoning acc rest
           | Some d \<Rightarrow>
               if finish_reason first_choice = Some ''stop'' then Inr (reasoning, acc, True)
               else consume
                      (reasoning @ (case reasoning_content d of None \<Rightarrow> [] | Some r \<Rightarrow> r))
                      (acc @ (case content d of None \<Rightarrow> [] | Some c \<Rightarrow> c))
                      rest))"

definition process_response :: "stream_event list \<Rightarrow> int \<Rightarrow> int \<Rightarrow> string option" where
  "process_response response max_retries attempt =
     (case consume [] [] response of
        Inl e \<Rightarrow> None
      | Inr (reasoning, acc, finished) \<Rightarrow> if finished then Some acc else None)"

text \<open>The chunks the claims name.\<close>

definition content_chunk :: "string \<Rightarrow> chunk" where
  "content_chunk c =
     \<lparr>choices = [\<lparr>delta = Some \<lparr>reasoning_content = None, content = Some c\<rparr>,
                  finish_reason = None\<rparr>]\<rparr>"

definition reasoning_chunk :: "string \<Rightarrow> chunk" where
  "reasoning_chunk r =
     \<lparr>choices = [\<lparr>delta = Some \<lparr>reasoning_content = Some r, content = None\<rparr>,
                  finish_reason = None\<rparr>]\<rparr>"

definition finish_chunk :: "string option \<Rightarrow> chunk" where
  \<comment> \<open>the chunk with \<open>finish_reason == 'stop'\<close>; its delta may carry a content fragment\<close>
  "finish_chunk c =
     \<lparr>choices = [\<lparr>delta = Some \<lparr>reasoning_content = None, content = c\<rparr>,
                  finish_reason = Some ''stop''\<rparr>]\<rparr>"

definition no_choices_chunk :: chunk where
  "no_choices_chunk = \<lparr>choices = []\<rparr>"

definition no_delta_chunk :: "string option \<Rightarrow> choice list \<Rightarrow> chunk" where
  "no_delta_chunk fr others = \<lparr>choices = \<lparr>delta = None, finish_reason = fr\<rparr> # others\<rparr>"

definition finishes :: "chunk \<Rightarrow> bool" where
  \<comment> \<open>the chunk reaches line 41 and its finish reason is \<open>'stop'\<close>\<close>
  "finishes ch =
     (case choices ch of
        [] \<Rightarrow> False
      | first_choice # _ \<Rightarrow>
          delta first_choice \<noteq> None \<and> finish_reason first_choice = Some ''stop'')"

definition content_of :: "chunk \<Rightarrow> string" where
  \<comment> \<open>the content fragment line 47 would append for this chunk\<close>
  "content_of ch =
     (case choices ch of
        [] \<Rightarrow> []
      | first_choice # _ \<Rightarrow>
          (case delta first_choice of
             None \<Rightarrow> []
           | Some d \<Rightarrow> (case content d of None \<Rightarrow> [] | Some c \<Rightarrow> c)))"

definition strip_reasoning :: "stream_event \<Rightarrow> stream_event" where
  \<comment> \<open>the same event with every reasoning fragment of the first choice removed\<close>
  "strip_reasoning ev =
     (case ev of
        Raise e \<Rightarrow> Raise e
      | Yield ch \<Rightarrow>
          Yield (ch\<lparr>choices :=
            (case choices ch of
               [] \<Rightarrow> []
             | first_choice # others \<Rightarrow>
                 first_choice\<lparr>delta :=
                   map_option (\<lambda>d. d\<lparr>reasoning_content := None\<rparr>) (delta first_choice)\<rparr>
                 # others)\<rparr>))"

definition visible :: "exn + (string \<times> string \<times> bool) \<Rightarrow> exn + (string \<times> bool)" where
  \<comment> \<open>what \<open>process_response\<close> reads after the loop: \<open>content\<close> and \<open>finished\<close>\<close>
  "visible out = (case out of Inl e \<Rightarrow> Inl e | Inr (reasoning, acc, fin) \<Rightarrow> Inr (acc, fin))"

section \<open>askDeepSeek (ai\_analyzer/ai\_analyzer.py)\<close>

text \<open>
  A data frame is kept as what the code asks of it: whether it is empty, and what
  \<open>to_json(orient='records', date_format='iso')\<close> gives (the text, or the exception raised).
\<close>

record dataframe =
  df_empty :: bool
  df_to_json :: "exn + string"

text \<open>The string literals of the source that the model uses, in UTF-8.\<close>

definition msg_no_stock_data :: string where
  \<comment> \<open>askDeepSeek, line 75: the message returned when stock_df is None or empty (16 code points)\<close>
  "msg_no_stock_data =
     [CHR 0xE6, CHR 0x97, CHR 0xA0, CHR 0xE6, CHR 0x9C, CHR 0x89, CHR 0xE6, CHR 0x95,
      CHR 0x88, CHR 0xE8, CHR 0x82, CHR 0xA1, CHR 0xE7, CHR 0xA5, CHR 0xA8, CHR 0xE5,
      CHR 0x8E, CHR 0x86, CHR 0xE5, CHR 0x8F, CHR 0xB2, CHR 0xE6, CHR 0x95, CHR 0xB0,
      CHR 0xE6, CHR 0x8D, CHR 0xAE, CHR 0xEF, CHR 0xBC, CHR 0x8C, CHR 0xE6, CHR 0x97,
      CHR 0xA0, CHR 0xE6, CHR 0xB3, CHR 0x95, CHR 0xE8, CHR 0xBF, CHR 0x9B, CHR 0xE8,
      CHR 0xA1, CHR 0x8C, CHR 0xE5, CHR 0x88, CHR 0x86, CHR 0xE6, CHR 0x9E, CHR 0x90]"

definition msg_not_finished :: string where
  \<comment> \<open>askDeepSeek, line 129: the message returned when every attempt is used up (14 code points)\<close>
  "msg_not_finished =
     [CHR 0xE8, CHR 0xAF, CHR 0xB7, CHR 0xE6, CHR 0xB1, CHR 0x82, CHR 0xE6, CHR 0x9C,
      CHR 0xAA, CHR 0xE6, CHR 0xAD, CHR 0xA3, CHR 0xE5, CHR 0xB8, CHR 0xB8, CHR 0xE7,
      CHR 0xBB, CHR 0x93, CHR 0xE6, CHR 0x9D, CHR 0x9F, CHR 0x2C, CHR 0xE8, CHR 0xAF,
      CHR 0xB7, CHR 0xE7, CHR 0xA8, CHR 0x8D, CHR 0xE5, CHR 0x90, CHR 0x8E, CHR 0xE5,
      CHR 0x86, CHR 0x8D, CHR 0xE8, CHR 0xAF, CHR 0x95, CHR 0xE3, CHR 0x80, CHR 0x82]"

definition user_content_head :: string where
  \<comment> \<open>askDeepSeek, line 85: the user message before the stock code\<close>
  "user_content_head =
     [CHR 0xE8, CHR 0xAF, CHR 0xB7, CHR 0xE6, CHR 0xA0, CHR 0xB9, CHR 0xE6, CHR 0x8D,
      CHR 0xAE, CHR 0xE8, CHR 0x82, CHR 0xA1, CHR 0xE7, CHR 0xA5, CHR 0xA8, CHR 0xE4,
      CHR 0xBB, CHR 0xA3, CHR 0xE7, CHR 0xA0, CHR 0x81, CHR 0x20]"

definition user_content_mid :: string where
  \<comment> \<open>askDeepSeek, lines 85-87: the user message between the stock code and the history JSON\<close>
  "user_content_mid =
     [CHR 0x20, CHR 0xE7, CHR 0x9A, CHR 0x84, CHR 0xE6, CHR 0x9C, CHR 0x80, CHR 0xE6,
      CHR 0x96, CHR 0xB0, CHR 0xE5, CHR 0x8E, CHR 0x86, CHR 0xE5, CHR 0x8F, CHR 0xB2,
      CHR 0xE6, CHR 0x95, CHR 0xB0, CHR 0xE6, CHR 0x8D, CHR 0xAE, CHR 0xE5, CHR 0x92,
      CHR 0x8C, CHR 0xE8, CHR 0xB5, CHR 0x84, CHR 0xE9, CHR 0x87, CHR 0x91, CHR 0xE6,
      CHR 0xB5, CHR 0x81, CHR 0xE5, CHR 0x90, CHR 0x91, CHR 0xE6, CHR 0x95, CHR 0xB0,
      CHR 0xE6, CHR 0x8D, CHR 0xAE, CHR 0xEF, CHR 0xBC, CHR 0x8C, CHR 0xE7, CHR 0xBB,
      CHR 0x99, CHR 0xE5, CHR 0x87, CHR 0xBA, CHR 0xE5, CHR 0x88, CHR 0x86, CHR 0xE6,
      CHR 0x9E, CHR 0x90, CHR 0xE5, CHR 0x92, CHR 0x8C, CHR 0xE6, CHR 0x8A, CHR 0x95,
      CHR 0xE8, CHR 0xB5, CHR 0x84, CHR 0xE5, CHR 0xBB, CHR 0xBA, CHR 0xE8, CHR 0xAE,
      CHR 0xAE, CHR 0xE3, CHR 0x80, CHR 0x82, CHR 0x0A, CHR 0x0A, CHR 0xE5, CHR 0x8E,
      CHR 0x86, CHR 0xE5, CHR 0x8F, CHR 0xB2, CHR 0xE8, CHR 0xA1, CHR 0x8C, CHR 0xE6,
      CHR 0x83, CHR 0x85, CHR 0xE6, CHR 0x95, CHR 0xB0, CHR 0xE6, CHR 0x8D, CHR 0xAE,
      CHR 0xE5, CHR 0xA6, CHR 0x82, CHR 0xE4, CHR 0xB8, CHR 0x8B, CHR 0xEF, CHR 0xBC,
      CHR 0x9A, CHR 0x0A]"

definition user_content_flow :: string where
  \<comment> \<open>askDeepSeek, lines 92-93: the heading of the fund flow JSON\<close>
  "user_content_flow =
     [CHR 0x0A, CHR 0xE8, CHR 0xB5, CHR 0x84, CHR 0xE9, CHR 0x87, CHR 0x91, CHR 0xE6,
      CHR 0xB5, CHR 0x81, CHR 0xE5, CHR 0x90, CHR 0x91, CHR 0xE6, CHR 0x95, CHR 0xB0,
      CHR 0xE6, CHR 0x8D, CHR 0xAE, CHR 0xE5, CHR 0xA6, CHR 0x82, CHR 0xE4, CHR 0xB8,
      CHR 0x8B, CHR 0xEF, CHR 0xBC, CHR 0x9A, CHR 0x0A]"

definition key_role :: string where
  \<comment> \<open>dict key: role\<close>
  "key_role =
     [CHR 0xE8, CHR 0xA7, CHR 0x92, CHR 0xE8, CHR 0x89, CHR 0xB2]"

definition key_signal :: string where
  \<comment> \<open>dict key: signal\<close>
  "key_signal =
     [CHR 0xE4, CHR 0xBF, CHR 0xA1, CHR 0xE5, CHR 0x8F, CHR 0xB7]"

definition key_phase_score :: string where
  \<comment> \<open>dict key: phase score\<close>
  "key_phase_score =
     [CHR 0xE9, CHR 0x98, CHR 0xB6, CHR 0xE6, CHR 0xAE, CHR 0xB5, CHR 0xE8, CHR 0xAF,
      CHR 0x84, CHR 0xE5, CHR 0x88, CHR 0x86]"

definition key_structure :: string where
  \<comment> \<open>dict key: key structures\<close>
  "key_structure =
     [CHR 0xE5, CHR 0x85, CHR 0xB3, CHR 0xE9, CHR 0x94, CHR 0xAE, CHR 0xE7, CHR 0xBB,
      CHR 0x93, CHR 0xE6, CHR 0x9E, CHR 0x84]"

definition key_market_impact :: string where
  \<comment> \<open>dict key: market impact\<close>
  "key_market_impact =
     [CHR 0xE5, CHR 0xA4, CHR 0xA7, CHR 0xE7, CHR 0x9B, CHR 0x98, CHR 0xE5, CHR 0xBD,
      CHR 0xB1, CHR 0xE5, CHR 0x93, CHR 0x8D]"

definition key_stop_loss :: string where
  \<comment> \<open>dict key: stop loss\<close>
  "key_stop_loss =
     [CHR 0xE6, CHR 0xAD, CHR 0xA2, CHR 0xE6, CHR 0x8D, CHR 0x9F, CHR 0xE4, CHR 0xBD,
      CHR 0x8D]"

definition key_confidence :: string where
  \<comment> \<open>dict key: confidence\<close>
  "key_confidence =
     [CHR 0xE7, CHR 0xBD, CHR 0xAE, CHR 0xE4, CHR 0xBF, CHR 0xA1, CHR 0xE5, CHR 0xBA,
      CHR 0xA6]"

definition key_reason :: string where
  \<comment> \<open>dict key: reason\<close>
  "key_reason =
     [CHR 0xE7, CHR 0x90, CHR 0x86, CHR 0xE7, CHR 0x94, CHR 0xB1]"

definition key_effort_ratio :: string where
  \<comment> \<open>dict key: effort/result ratio\<close>
  "key_effort_ratio =
     [CHR 0xE5, CHR 0x8A, CHR 0xAA, CHR 0xE5, CHR 0x8A, CHR 0x9B, CHR 0xE7, CHR 0xBB,
      CHR 0x93, CHR 0xE6, CHR 0x9E, CHR 0x9C, CHR 0xE6, CHR 0xAF, CHR 0x94, CHR 0xE7,
      CHR 0x8E, CHR 0x87]"

definition key_anomalies :: string where
  \<comment> \<open>dict key: anomalous behaviour\<close>
  "key_anomalies =
     [CHR 0xE5, CHR 0xBC, CHR 0x82, CHR 0xE5, CHR 0xB8, CHR 0xB8, CHR 0xE8, CHR 0xA1,
      CHR 0x8C, CHR 0xE4, CHR 0xB8, CHR 0xBA]"

definition key_institution :: string where
  \<comment> \<open>dict key: institutional confirmation\<close>
  "key_institution =
     [CHR 0xE6, CHR 0x9C, CHR 0xBA, CHR 0xE6, CHR 0x9E, CHR 0x84, CHR 0xE9, CHR 0xAA,
      CHR 0x8C, CHR 0xE8, CHR 0xAF, CHR 0x81]"

definition key_risk_warning :: string where
  \<comment> \<open>dict key: risk warning\<close>
  "key_risk_warning =
     [CHR 0xE9, CHR 0xA3, CHR 0x8E, CHR 0xE9, CHR 0x99, CHR 0xA9, CHR 0xE8, CHR 0xAD,
      CHR 0xA6, CHR 0xE5, CHR 0x91, CHR 0x8A]"

definition val_phase_hunter :: string where
  \<comment> \<open>role name: phase hunter\<close>
  "val_phase_hunter =
     [CHR 0xE9, CHR 0x98, CHR 0xB6, CHR 0xE6, CHR 0xAE, CHR 0xB5, CHR 0xE7, CHR 0x8C,
      CHR 0x8E, CHR 0xE6, CHR 0x89, CHR 0x8B]"

definition val_volume_detective :: string where
  \<comment> \<open>role name: volume detective\<close>
  "val_volume_detective =
     [CHR 0xE9, CHR 0x87, CHR 0x8F, CHR 0xE8, CHR 0x83, CHR 0xBD, CHR 0xE4, CHR 0xBE,
      CHR 0xA6, CHR 0xE6, CHR 0x8E, CHR 0xA2]"

definition val_neutral :: string where
  \<comment> \<open>signal value: neutral\<close>
  "val_neutral =
     [CHR 0xE4, CHR 0xB8, CHR 0xAD, CHR 0xE6, CHR 0x80, CHR 0xA7]"

definition val_zero_yuan :: string where
  \<comment> \<open>the stop loss of the fallback: yen sign, 0.00\<close>
  "val_zero_yuan =
     [CHR 0xC2, CHR 0xA5, CHR 0x30, CHR 0x2E, CHR 0x30, CHR 0x30]"

definition val_no_data :: string where
  \<comment> \<open>value: no data\<close>
  "val_no_data =
     [CHR 0xE6, CHR 0x97, CHR 0xA0, CHR 0xE6, CHR 0x95, CHR 0xB0, CHR 0xE6, CHR 0x8D,
      CHR 0xAE]"

definition msg_cannot_get_data :: string where
  \<comment> \<open>ValueError message: the stock data cannot be fetched\<close>
  "msg_cannot_get_data =
     [CHR 0xE6, CHR 0x97, CHR 0xA0, CHR 0xE6, CHR 0xB3, CHR 0x95, CHR 0xE8, CHR 0x8E,
      CHR 0xB7, CHR 0xE5, CHR 0x8F, CHR 0x96, CHR 0xE8, CHR 0x82, CHR 0xA1, CHR 0xE7,
      CHR 0xA5, CHR 0xA8, CHR 0xE6, CHR 0x95, CHR 0xB0, CHR 0xE6, CHR 0x8D, CHR 0xAE]"

definition reason_ai_failed :: string where
  \<comment> \<open>reason prefix: the AI call failed\<close>
  "reason_ai_failed =
     [CHR 0x41, CHR 0x49, CHR 0xE5, CHR 0x88, CHR 0x86, CHR 0xE6, CHR 0x9E, CHR 0x90,
      CHR 0xE8, CHR 0xB0, CHR 0x83, CHR 0xE7, CHR 0x94, CHR 0xA8, CHR 0xE5, CHR 0xA4,
      CHR 0xB1, CHR 0xE8, CHR 0xB4, CHR 0xA5, CHR 0x3A, CHR 0x20]"

definition reason_analyze_failed :: string where
  \<comment> \<open>reason prefix: an error while running the analysis\<close>
  "reason_analyze_failed =
     [CHR 0xE6, CHR 0x89, CHR 0xA7, CHR 0xE8, CHR 0xA1, CHR 0x8C, CHR 0xE5, CHR 0x88,
      CHR 0x86, CHR 0xE6, CHR 0x9E, CHR 0x90, CHR 0xE6, CHR 0x97, CHR 0xB6, CHR 0xE5,
      CHR 0x8F, CHR 0x91, CHR 0xE7, CHR 0x94, CHR 0x9F, CHR 0xE9, CHR 0x94, CHR 0x99,
      CHR 0xE8, CHR 0xAF, CHR 0xAF, CHR 0x3A, CHR 0x20]"

definition reason_agent_failed :: string where
  \<comment> \<open>reason prefix: an error while running the agent\<close>
  "reason_agent_failed =
     [CHR 0xE8, CHR 0xBF, CHR 0x90, CHR 0xE8, CHR 0xA1, CHR 0x8C, CHR 0x61, CHR 0x67,
      CHR 0x65, CHR 0x6E, CHR 0x74, CHR 0xE6, CHR 0x97, CHR 0xB6, CHR 0xE5, CHR 0x8F,
      CHR 0x91, CHR 0xE7, CHR 0x94, CHR 0x9F, CHR 0xE9, CHR 0x94, CHR 0x99, CHR 0xE8,
      CHR 0xAF, CHR 0xAF, CHR 0x3A, CHR 0x20]"

definition debug_detail :: string where
  \<comment> \<open>debug trace prefix: error detail\<close>
  "debug_detail =
     [CHR 0xE9, CHR 0x94, CHR 0x99, CHR 0xE8, CHR 0xAF, CHR 0xAF, CHR 0xE8, CHR 0xAF,
      CHR 0xA6, CHR 0xE6, CHR 0x83, CHR 0x85, CHR 0x3A, CHR 0x20]"

definition debug_type :: string where
  \<comment> \<open>debug trace prefix: error type\<close>
  "debug_type =
     [CHR 0xE9, CHR 0x94, CHR 0x99, CHR 0xE8, CHR 0xAF, CHR 0xAF, CHR 0xE7, CHR 0xB1,
      CHR 0xBB, CHR 0xE5, CHR 0x9E, CHR 0x8B, CHR 0x3A, CHR 0x20]"


definition key_events :: string where
  \<comment> \<open>dict key: key events\<close>
  "key_events =
     [CHR 0xE5, CHR 0x85, CHR 0xB3, CHR 0xE9, CHR 0x94, CHR 0xAE, CHR 0xE4, CHR 0xBA,
      CHR 0x8B, CHR 0xE4, CHR 0xBB, CHR 0xB6]"

definition key_event_confirmed :: string where
  \<comment> \<open>dict key: event confirmation\<close>
  "key_event_confirmed =
     [CHR 0xE4, CHR 0xBA, CHR 0x8B, CHR 0xE4, CHR 0xBB, CHR 0xB6, CHR 0xE9, CHR 0xAA,
      CHR 0x8C, CHR 0xE8, CHR 0xAF, CHR 0x81]"

definition key_failure_risk :: string where
  \<comment> \<open>dict key: failure risk\<close>
  "key_failure_risk =
     [CHR 0xE5, CHR 0xA4, CHR 0xB1, CHR 0xE8, CHR 0xB4, CHR 0xA5, CHR 0xE9, CHR 0xA3,
      CHR 0x8E, CHR 0xE9, CHR 0x99, CHR 0xA9]"

definition key_cause_space :: string where
  \<comment> \<open>dict key: cause space\<close>
  "key_cause_space =
     [CHR 0xE5, CHR 0x9B, CHR 0xA0, CHR 0xE6, CHR 0x9E, CHR 0x9C, CHR 0xE7, CHR 0xA9,
      CHR 0xBA, CHR 0xE9, CHR 0x97, CHR 0xB4]"

definition key_k_value :: string where
  \<comment> \<open>dict key: the letter K and the Hangul syllable U+AC12, as the source has it\<close>
  "key_k_value =
     [CHR 0x4B, CHR 0xEA, CHR 0xB0, CHR 0x92]"

definition key_target_price :: string where
  \<comment> \<open>dict key: target price\<close>
  "key_target_price =
     [CHR 0xE7, CHR 0x9B, CHR 0xAE, CHR 0xE6, CHR 0xA0, CHR 0x87, CHR 0xE4, CHR 0xBB,
      CHR 0xB7]"

definition key_reward_risk :: string where
  \<comment> \<open>dict key: reward/risk ratio\<close>
  "key_reward_risk =
     [CHR 0xE7, CHR 0x9B, CHR 0x88, CHR 0xE4, CHR 0xBA, CHR 0x8F, CHR 0xE6, CHR 0xAF,
      CHR 0x94]"

definition key_executable :: string where
  \<comment> \<open>dict key: executable\<close>
  "key_executable =
     [CHR 0xE5, CHR 0x8F, CHR 0xAF, CHR 0xE6, CHR 0x89, CHR 0xA7, CHR 0xE8, CHR 0xA1,
      CHR 0x8C]"

definition key_relative_strength :: string where
  \<comment> \<open>dict key: relative strength RS\<close>
  "key_relative_strength =
     [CHR 0xE7, CHR 0x9B, CHR 0xB8, CHR 0xE5, CHR 0xAF, CHR 0xB9, CHR 0xE5, CHR 0xBC,
      CHR 0xBA, CHR 0xE5, CHR 0xBA, CHR 0xA6, CHR 0x52, CHR 0x53]"

definition key_sector_sync :: string where
  \<comment> \<open>dict key: sector in step\<close>
  "key_sector_sync =
     [CHR 0xE6, CHR 0x9D, CHR 0xBF, CHR 0xE5, CHR 0x9D, CHR 0x97, CHR 0xE5, CHR 0x90,
      CHR 0x8C, CHR 0xE6, CHR 0xAD, CHR 0xA5]"

definition key_fund_flow :: string where
  \<comment> \<open>dict key: fund flow\<close>
  "key_fund_flow =
     [CHR 0xE8, CHR 0xB5, CHR 0x84, CHR 0xE9, CHR 0x87, CHR 0x91, CHR 0xE6, CHR 0xB5,
      CHR 0x81, CHR 0xE5, CHR 0x90, CHR 0x91]"

definition key_score_adjust :: string where
  \<comment> \<open>dict key: score adjustment\<close>
  "key_score_adjust =
     [CHR 0xE8, CHR 0xAF, CHR 0x84, CHR 0xE5, CHR 0x88, CHR 0x86, CHR 0xE8, CHR 0xB0,
      CHR 0x83, CHR 0xE6, CHR 0x95, CHR 0xB4]"

definition val_spring_hunter :: string where
  \<comment> \<open>role name: spring hunter\<close>
  "val_spring_hunter =
     [CHR 0xE5, CHR 0xBC, CHR 0xB9, CHR 0xE7, CHR 0xB0, CHR 0xA7, CHR 0xE7, CHR 0x8C,
      CHR 0x8E, CHR 0xE4, CHR 0xBA, CHR 0xBA]"

definition val_target_engineer :: string where
  \<comment> \<open>role name: target engineer\<close>
  "val_target_engineer =
     [CHR 0xE7, CHR 0x9B, CHR 0xAE, CHR 0xE6, CHR 0xA0, CHR 0x87, CHR 0xE5, CHR 0xB7,
      CHR 0xA5, CHR 0xE7, CHR 0xA8, CHR 0x8B, CHR 0xE5, CHR 0xB8, CHR 0x88]"

definition val_strength_commander :: string where
  \<comment> \<open>role name: strength commander\<close>
  "val_strength_commander =
     [CHR 0xE5, CHR 0xBC, CHR 0xBA, CHR 0xE5, CHR 0xBA, CHR 0xA6, CHR 0xE6, CHR 0x8C,
      CHR 0x87, CHR 0xE6, CHR 0x8C, CHR 0xA5, CHR 0xE5, CHR 0xAE, CHR 0x98]"

definition val_hold :: string where
  \<comment> \<open>value: hold\<close>
  "val_hold =
     [CHR 0xE7, CHR 0xBB, CHR 0xB4, CHR 0xE6, CHR 0x8C, CHR 0x81]"


primrec contains :: "string \<Rightarrow> string \<Rightarrow> bool" where
  \<comment> \<open>Python's \<open>needle in hay\<close> on strings\<close>
  "contains needle [] = (needle = [])"
| "contains needle (c # cs) = (take (length needle) (c # cs) = needle \<or> contains needle cs)"

text \<open>
  \<open>OpenAI(...).chat.completions.create(...)\<close> is a parameter: given the system prompt and
  the user message it acts on the world and raises or gives the stream. A run of
  \<open>askDeepSeek\<close> records the string it returned, the world it left, the number of
  requests it made and the durations it slept.
\<close>

record 'w ask_run =
  answer :: string
  ask_world :: 'w
  requests :: nat
  ask_sleeps :: "int list"

function ask_loop ::
  "(string option \<Rightarrow> string \<Rightarrow> 'w \<Rightarrow> (exn + stream_event list) \<times> 'w) \<Rightarrow> (int \<Rightarrow> 'w \<Rightarrow> 'w) \<Rightarrow>
   string option \<Rightarrow> string \<Rightarrow> int \<Rightarrow> int \<Rightarrow> 'w ask_run \<Rightarrow> 'w ask_run" where
  "ask_loop create time_sleep prompt_content user_content max_retries attempt run =
     (if attempt < max_retries then
        (case create prompt_content user_content (ask_world run) of
           (Inr response, w') \<Rightarrow>
             (case process_response response max_retries attempt of
                Some c \<Rightarrow>
                  if c \<noteq> [] then run\<lparr>answer := c, ask_world := w', requests := requests run + 1\<rparr>
                  else ask_loop create time_sleep prompt_content user_content max_retries
                         (attempt + 1) (run\<lparr>ask_world := w', requests := requests run + 1\<rparr>)
              | None \<Rightarrow>
                  ask_loop create time_sleep prompt_content user_content max_retries
                    (attempt + 1) (run\<lparr>ask_world := w', requests := requests run + 1\<rparr>))
         | (Inl e, w') \<Rightarrow>
             ask_loop create time_sleep prompt_content user_content max_retries (attempt + 1)
               (if attempt < max_retries - 1 then
                  run\<lparr>ask_world := time_sleep (if contains ''API'' (str e) then 5 else 2) w',
                      requests := requests run + 1,
                      ask_sleeps := ask_sleeps run @ [if contains ''API'' (str e) then 5 else 2]\<rparr>
                else run\<lparr>ask_world := w', requests := requests run + 1\<rparr>))
      else run\<lparr>answer := msg_not_finished\<rparr>)"
  by pat_completeness auto
termination
  by (relation "measure (\<lambda>(c, ts, p, u, m, a, r). nat (m - a))") auto

declare ask_loop.simps [simp del]

definition fund_flow_json :: "dataframe option \<Rightarrow> exn + string" where
  \<comment> \<open>lines 80 to 82: the empty string unless the frame is there and not empty\<close>
  "fund_flow_json stock_fund_flow_df =
     (case stock_fund_flow_df of
        None \<Rightarrow> Inr []
      | Some ff \<Rightarrow> if df_empty ff then Inr [] else df_to_json ff)"

definition build_user_content :: "string \<Rightarrow> string \<Rightarrow> string \<Rightarrow> string" where
  \<comment> \<open>lines 85 to 95\<close>
  "build_user_content stock_code stock_json stock_fund_flow_json =
     (let user_content = user_content_head @ stock_code @ user_content_mid @ stock_json
                         @ [CHR 0x0A]
      in if stock_fund_flow_json \<noteq> []
         then user_content @ user_content_flow @ stock_fund_flow_json @ [CHR 0x0A]
         else user_content)"

definition askDeepSeek ::
  "(string option \<Rightarrow> string \<Rightarrow> 'w \<Rightarrow> (exn + stream_event list) \<times> 'w) \<Rightarrow> (int \<Rightarrow> 'w \<Rightarrow> 'w) \<Rightarrow>
   dataframe option \<Rightarrow> dataframe option \<Rightarrow> string \<Rightarrow> string option \<Rightarrow> int \<Rightarrow> 'w \<Rightarrow>
   exn + 'w ask_run" where
  "askDeepSeek create time_sleep stock_df stock_fund_flow_df stock_code prompt_content
     max_retries w =
     (case stock_df of
        None \<Rightarrow> Inr \<lparr>answer = msg_no_stock_data, ask_world = w, requests = 0, ask_sleeps = []\<rparr>
      | Some df \<Rightarrow>
          if df_empty df
          then Inr \<lparr>answer = msg_no_stock_data, ask_world = w, requests = 0, ask_sleeps = []\<rparr>
          else
            (case df_to_json df of
               Inl e \<Rightarrow> Inl e
             | Inr stock_json \<Rightarrow>
                 (case fund_flow_json stock_fund_flow_df of
                    Inl e \<Rightarrow> Inl e
                  | Inr stock_fund_flow_json \<Rightarrow>
                      Inr (ask_loop create time_sleep prompt_content
                             (build_user_content stock_code stock_json stock_fund_flow_json)
                             max_retries 0
                             \<lparr>answer = [], ask_world = w, requests = 0, ask_sleeps = []\<rparr>))))"

definition attempt_fails :: "(exn + stream_event list) \<Rightarrow> bool" where
  \<comment> \<open>the request raised, or its stream ended (or broke) before a finish signal\<close>
  "attempt_fails out =
     (case out of Inl e \<Rightarrow> True | Inr response \<Rightarrow> process_response response 0 0 = None)"

definition every_attempt_fails ::
  "(string option \<Rightarrow> string \<Rightarrow> 'w \<Rightarrow> (exn + stream_event list) \<times> 'w) \<Rightarrow> bool" where
  "every_attempt_fails create = (\<forall>p u w. attempt_fails (fst (create p u w)))"

section \<open>The roles (agent/phase\_hunter.py, agent/volume\_detective.py, agent/spring\_hunter.py, target\_engineer.py, strength\_commander.py)\<close>

text \<open>
  What a role returns is either a dictionary (its keys in the order written) or a
  string: \<open>analyze\<close> returns the string \<open>askDeepSeek\<close> gave as it is.
\<close>

datatype jvalue =
  JStr string | JInt int | JFloat real | JBool bool | JList "jvalue list"

datatype agent_result = Reply string | Record "(string \<times> jvalue) list"

definition field_names :: "agent_result \<Rightarrow> string list option" where
  \<comment> \<open>the keys of a dictionary; a string has none\<close>
  "field_names r = (case r of Reply s \<Rightarrow> None | Record d \<Rightarrow> Some (map fst d))"

definition field :: "string \<Rightarrow> agent_result \<Rightarrow> jvalue option" where
  "field k r = (case r of Reply s \<Rightarrow> None | Record d \<Rightarrow> map_of d k)"

text \<open>
  The collaborators of a role, each acting on the world: the two data fetches, the
  lines between them and the engine call (stock information, benchmark, industry and
  intraday data, \<open>_build_prompt\<close>), which give the prompt or \<open>None\<close>, the engine request,
  and \<open>time.sleep\<close>.
\<close>

record 'w collaborators =
  fetch_stock_data :: "string \<Rightarrow> 'w \<Rightarrow> (exn + dataframe option) \<times> 'w"
  fetch_fund_flow :: "string \<Rightarrow> 'w \<Rightarrow> (exn + dataframe option) \<times> 'w"
  make_prompt :: "string \<Rightarrow> dataframe \<Rightarrow> dataframe option \<Rightarrow> 'w \<Rightarrow> (exn + string option) \<times> 'w"
  chat_create :: "string option \<Rightarrow> string \<Rightarrow> 'w \<Rightarrow> (exn + stream_event list) \<times> 'w"
  sleep_for :: "int \<Rightarrow> 'w \<Rightarrow> 'w"

definition value_error :: exn where
  \<comment> \<open>\<^verbatim>\<open>raise ValueError(...)\<close> of \<open>analyze\<close>, with the message \<open>msg_cannot_get_data\<close>\<close>
  "value_error = \<lparr>exn_type = ''ValueError'', exn_msg = msg_cannot_get_data\<rparr>"

text \<open>
  The fallback dictionary of each role. A role writes it two or three times (in
  \<open>analyze\<close> and in its runner), the same but for the prefix of its reason.
\<close>

definition phase_hunter_fallback :: "string \<Rightarrow> exn \<Rightarrow> agent_result" where
  \<comment> \<open>phase\_hunter.py, lines 105, 126 and 519\<close>
  "phase_hunter_fallback reason_prefix e =
     Record
       [(key_role, JStr val_phase_hunter),
        (key_signal, JStr val_neutral),
        (key_phase_score, JInt 3),
        (key_structure, JList []),
        (key_market_impact, JBool False),
        (key_stop_loss, JStr val_zero_yuan),
        (key_confidence, JInt 50),
        (key_reason, JStr (reason_prefix @ str e)),
        (''_debug_reasoning'',
           JList [JStr (debug_detail @ str e), JStr (debug_type @ exn_type e)])]"

definition volume_detective_fallback :: "string \<Rightarrow> exn \<Rightarrow> agent_result" where
  \<comment> \<open>volume\_detective.py, lines 75 and 96\<close>
  "volume_detective_fallback reason_prefix e =
     Record
       [(key_role, JStr val_volume_detective),
        (key_signal, JStr val_neutral),
        (key_effort_ratio, JStr ''0.00''),
        (key_anomalies, JList []),
        (key_institution, JStr val_no_data),
        (key_risk_warning, JBool False),
        (key_confidence, JInt 50),
        (key_reason, JStr (reason_prefix @ str e)),
        (''_debug_reasoning'',
           JList [JStr (debug_detail @ str e), JStr (debug_type @ exn_type e)])]"

definition spring_hunter_fallback :: "string \<Rightarrow> exn \<Rightarrow> agent_result" where
  \<comment> \<open>spring\_hunter.py, lines 82 and 408\<close>
  "spring_hunter_fallback reason_prefix e =
     Record
       [(key_role, JStr val_spring_hunter),
        (key_signal, JStr val_neutral),
        (key_events, JList []),
        (key_event_confirmed, JBool False),
        (key_failure_risk, JBool False),
        (key_confidence, JInt 50),
        (key_reason, JStr (reason_prefix @ str e)),
        (''_debug_reasoning'',
           JList [JStr (debug_detail @ str e), JStr (debug_type @ exn_type e)])]"

definition target_engineer_fallback :: "string \<Rightarrow> exn \<Rightarrow> agent_result" where
  \<comment> \<open>target\_engineer.py, lines 75 and 458\<close>
  "target_engineer_fallback reason_prefix e =
     Record
       [(key_role, JStr val_target_engineer),
        (key_signal, JStr val_neutral),
        (key_cause_space, JStr val_zero_yuan),
        (key_k_value, JFloat 1),
        (key_target_price, JStr val_zero_yuan),
        (key_reward_risk, JStr ''0.0''),
        (key_executable, JBool False),
        (key_confidence, JInt 50),
        (key_reason, JStr (reason_prefix @ str e)),
        (''_debug_reasoning'',
           JList [JStr (debug_detail @ str e), JStr (debug_type @ exn_type e)])]"

definition strength_commander_fallback :: "string \<Rightarrow> exn \<Rightarrow> agent_result" where
  \<comment> \<open>strength\_commander.py, lines 78 and 437\<close>
  "strength_commander_fallback reason_prefix e =
     Record
       [(key_role, JStr val_strength_commander),
        (key_signal, JStr val_neutral),
        (key_relative_strength, JFloat 0),
        (key_sector_sync, JBool False),
        (key_fund_flow, JStr val_no_data),
        (key_score_adjust, JStr val_hold),
        (key_confidence, JInt 50),
        (key_reason, JStr (reason_prefix @ str e)),
        (''_debug_reasoning'',
           JList [JStr (debug_detail @ str e), JStr (debug_type @ exn_type e)])]"

text \<open>
  The body of \<open>analyze\<close>. The five roles have it in common but for three things: the
  fallback dictionary; what is fetched between the fund flow and the engine call, which
  is the collaborator \<open>make_prompt\<close>; and what becomes of an exception of \<open>askDeepSeek\<close>.
  The phase hunter and the volume detective catch it in an inner \<open>try\<close> and return the
  fallback with the reason prefix \<open>reason_ai_failed\<close>. The spring hunter catches it,
  prints and raises it again; the target engineer and the strength commander have no
  inner \<open>try\<close>: in these three it reaches the outer \<open>except Exception\<close>, whose fallback has
  the prefix \<open>reason_analyze_failed\<close>. \<open>ai_reason\<close> is that prefix.
\<close>

definition analyze_with ::
  "(string \<Rightarrow> exn \<Rightarrow> agent_result) \<Rightarrow> string \<Rightarrow> 'w collaborators \<Rightarrow> string \<Rightarrow> 'w \<Rightarrow>
   agent_result \<times> 'w" where
  "analyze_with fallback ai_reason env stock_code w =
     (case fetch_stock_data env stock_code w of
        (Inl e, w1) \<Rightarrow> (fallback reason_analyze_failed e, w1)
      | (Inr stock_data, w1) \<Rightarrow>
          (case stock_data of
             None \<Rightarrow> (fallback reason_analyze_failed value_error, w1)
           | Some df \<Rightarrow>
               if df_empty df then (fallback reason_analyze_failed value_error, w1)
               else
                 (case fetch_fund_flow env stock_code w1 of
                    (Inl e, w2) \<Rightarrow> (fallback reason_analyze_failed e, w2)
                  | (Inr fund_flow_data, w2) \<Rightarrow>
                      (case make_prompt env stock_code df fund_flow_data w2 of
                         (Inl e, w3) \<Rightarrow> (fallback reason_analyze_failed e, w3)
                       | (Inr prompt, w3) \<Rightarrow>
                           (case askDeepSeek (chat_create env) (sleep_for env) (Some df)
                                   fund_flow_data stock_code prompt 5 w3 of
                              Inl ai_error \<Rightarrow> (fallback ai_reason ai_error, w3)
                            | Inr run \<Rightarrow> (Reply (answer run), ask_world run))))))"

definition PhaseHunterAgent_analyze ::
  "'w collaborators \<Rightarrow> string \<Rightarrow> 'w \<Rightarrow> agent_result \<times> 'w" where
  "PhaseHunterAgent_analyze = analyze_with phase_hunter_fallback reason_ai_failed"

definition VolumeDetectiveAgent_analyze ::
  "'w collaborators \<Rightarrow> string \<Rightarrow> 'w \<Rightarrow> agent_result \<times> 'w" where
  "VolumeDetectiveAgent_analyze = analyze_with volume_detective_fallback reason_ai_failed"

definition SpringHunterAgent_analyze ::
  "'w collaborators \<Rightarrow> string \<Rightarrow> 'w \<Rightarrow> agent_result \<times> 'w" where
  "SpringHunterAgent_analyze = analyze_with spring_hunter_fallback reason_analyze_failed"

definition TargetEngineerAgent_analyze ::
  "'w collaborators \<Rightarrow> string \<Rightarrow> 'w \<Rightarrow> agent_result \<times> 'w" where
  "TargetEngineerAgent_analyze = analyze_with target_engineer_fallback reason_analyze_failed"

definition StrengthCommanderAgent_analyze ::
  "'w collaborators \<Rightarrow> string \<Rightarrow> 'w \<Rightarrow> agent_result \<times> 'w" where
  "StrengthCommanderAgent_analyze =
     analyze_with strength_commander_fallback reason_analyze_failed"

text \<open>
  The module-level runners. Their \<open>try\<close> is around the construction of the agent and the
  call of \<open>analyze\<close>, taken here as one callable that raises or returns; whichever it
  does, the runner returns. \<open>returning\<close> makes such a callable of a function that always
  returns, as the five \<open>analyze\<close> above do.
\<close>

definition run_phase_hunter_agent ::
  "(string \<Rightarrow> 'w \<Rightarrow> (exn + agent_result) \<times> 'w) \<Rightarrow> string \<Rightarrow> 'w \<Rightarrow> agent_result \<times> 'w" where
  "run_phase_hunter_agent analyze stock_code w =
     (case analyze stock_code w of
        (Inr result, w') \<Rightarrow> (result, w')
      | (Inl e, w') \<Rightarrow> (phase_hunter_fallback reason_agent_failed e, w'))"

definition run_volume_detective_agent ::
  "(string \<Rightarrow> 'w \<Rightarrow> (exn + agent_result) \<times> 'w) \<Rightarrow> string \<Rightarrow> 'w \<Rightarrow> agent_result \<times> 'w" where
  "run_volume_detective_agent analyze stock_code w =
     (case analyze stock_code w of
        (Inr result, w') \<Rightarrow> (result, w')
      | (Inl e, w') \<Rightarrow> (Record [(''error'', JStr (str e))], w'))"

definition run_spring_hunter_agent ::
  "(string \<Rightarrow> 'w \<Rightarrow> (exn + agent_result) \<times> 'w) \<Rightarrow> string \<Rightarrow> 'w \<Rightarrow> agent_result \<times> 'w" where
  "run_spring_hunter_agent analyze stock_code w =
     (case analyze stock_code w of
        (Inr result, w') \<Rightarrow> (result, w')
      | (Inl e, w') \<Rightarrow> (spring_hunter_fallback reason_agent_failed e, w'))"

definition run_target_engineer_agent ::
  "(string \<Rightarrow> 'w \<Rightarrow> (exn + agent_result) \<times> 'w) \<Rightarrow> string \<Rightarrow> 'w \<Rightarrow> agent_result \<times> 'w" where
  "run_target_engineer_agent analyze stock_code w =
     (case analyze stock_code w of
        (Inr result, w') \<Rightarrow> (result, w')
      | (Inl e, w') \<Rightarrow> (target_engineer_fallback reason_agent_failed e, w'))"

definition run_strength_commander_agent ::
  "(string \<Rightarrow> 'w \<Rightarrow> (exn + agent_result) \<times> 'w) \<Rightarrow> string \<Rightarrow> 'w \<Rightarrow> agent_result \<times> 'w" where
  "run_strength_commander_agent analyze stock_code w =
     (case analyze stock_code w of
        (Inr result, w') \<Rightarrow> (result, w')
      | (Inl e, w') \<Rightarrow> (strength_commander_fallback reason_agent_failed e, w'))"

definition returning ::
  "(string \<Rightarrow> 'w \<Rightarrow> agent_result \<times> 'w) \<Rightarrow> string \<Rightarrow> 'w \<Rightarrow> (exn + agent_result) \<times> 'w" where
  "returning f stock_code w = (case f stock_code w of (r, w') \<Rightarrow> (Inr r, w'))"

text \<open>The field lists of the fallback dictionaries, and the shape they share.\<close>

definition phase_hunter_fields :: "string list" where
  "phase_hunter_fields =
     [key_role, key_signal, key_phase_score, key_structure, key_market_impact, key_stop_loss,
      key_confidence, key_reason, ''_debug_reasoning'']"

definition volume_detective_fields :: "string list" where
  "volume_detective_fields =
     [key_role, key_signal, key_effort_ratio, key_anomalies, key_institution, key_risk_warning,
      key_confidence, key_reason, ''_debug_reasoning'']"

definition spring_hunter_fields :: "string list" where
  "spring_hunter_fields =
     [key_role, key_signal, key_events, key_event_confirmed, key_failure_risk,
      key_confidence, key_reason, ''_debug_reasoning'']"

definition target_engineer_fields :: "string list" where
  "target_engineer_fields =
     [key_role, key_signal, key_cause_space, key_k_value, key_target_price, key_reward_risk,
      key_executable, key_confidence, key_reason, ''_debug_reasoning'']"

definition strength_commander_fields :: "string list" where
  "strength_commander_fields =
     [key_role, key_signal, key_relative_strength, key_sector_sync, key_fund_flow,
      key_score_adjust, key_confidence, key_reason, ''_debug_reasoning'']"

definition fallback_shaped :: "string list \<Rightarrow> agent_result \<Rightarrow> bool" where
  \<comment> \<open>a dictionary with these keys in this order, the signal neutral, the confidence 50
      and a string as its reason\<close>
  "fallback_shaped names r =
     (field_names r = Some names
      \<and> field key_signal r = Some (JStr val_neutral)
      \<and> field key_confidence r = Some (JInt 50)
      \<and> (\<exists>reason. field key_reason r = Some (JStr reason)))"

definition reply_or_fallback ::
  "(string \<Rightarrow> exn \<Rightarrow> agent_result) \<Rightarrow> string list \<Rightarrow> 'w collaborators \<Rightarrow> string \<Rightarrow> 'w \<Rightarrow>
   agent_result \<Rightarrow> bool" where
  \<comment> \<open>\<open>r\<close> is the string \<open>askDeepSeek\<close> returned for the data fetched from \<open>w\<close> on, or it is
      a fallback dictionary of the role, of the shape above\<close>
  "reply_or_fallback fallback names env stock_code w r =
     ((\<exists>df w1 ff w2 prompt w3 run.
          fetch_stock_data env stock_code w = (Inr (Some df), w1) \<and> \<not> df_empty df
        \<and> fetch_fund_flow env stock_code w1 = (Inr ff, w2)
        \<and> make_prompt env stock_code df ff w2 = (Inr prompt, w3)
        \<and> askDeepSeek (chat_create env) (sleep_for env) (Some df) ff stock_code prompt 5 w3
            = Inr run
        \<and> r = Reply (answer run))
      \<or> ((\<exists>reason_prefix e. r = fallback reason_prefix e) \<and> fallback_shaped names r))"

section \<open>The orchestrator (wyckoff\_multi\_agent\_analysis.py)\<close>








section \<open>Concrete inputs\<close>


definition is_a_directory :: exn where
  "is_a_directory =
     \<lparr>exn_type = ''IsADirectoryError'',
      exn_msg = ''[Errno 21] Is a directory''\<rparr>"

definition directory_fs :: filesystem where
  \<comment> \<open>a directory stands where the cache file would be: it can be neither opened
      nor unlinked\<close>
  "directory_fs =
     [get_cache_path ''600000'' ''fund_flow'' \<mapsto>
        \<lparr>st_mtime = 1000, stored = Inl is_a_directory, unlink_error = Some is_a_directory\<rparr>]"

definition engine_down :: "unit collaborators" where
  \<comment> \<open>the data is there; every request to the engine raises\<close>
  "engine_down =
     \<lparr>fetch_stock_data = (\<lambda>code w. (Inr (Some \<lparr>df_empty = False, df_to_json = Inr ''[]''\<rparr>), w)),
      fetch_fund_flow = (\<lambda>code w. (Inr None, w)),
      make_prompt = (\<lambda>code df ff w. (Inr (Some ''prompt''), w)),
      chat_create =
        (\<lambda>p u w. (Inl \<lparr>exn_type = ''APIConnectionError'', exn_msg = ''API down''\<rparr>, w)),
      sleep_for = (\<lambda>d w. w)\<rparr>"

definition engine_replies :: "unit collaborators" where
  \<comment> \<open>the data is there; the engine streams \<open>ok\<close> and the finish signal\<close>
  "engine_replies =
     \<lparr>fetch_stock_data = (\<lambda>code w. (Inr (Some \<lparr>df_empty = False, df_to_json = Inr ''[]''\<rparr>), w)),
      fetch_fund_flow = (\<lambda>code w. (Inr None, w)),
      make_prompt = (\<lambda>code df ff w. (Inr (Some ''prompt''), w)),
      chat_create =
        (\<lambda>p u w. (Inr [Yield (content_chunk ''ok''), Yield (finish_chunk None)], w)),
      sleep_for = (\<lambda>d w. w)\<rparr>"

definition no_data :: "unit collaborators" where
  \<comment> \<open>\<open>get_stock_data\<close> returns \<open>None\<close>\<close>
  "no_data = engine_replies\<lparr>fetch_stock_data := (\<lambda>code w. (Inr None, w))\<rparr>"




section \<open>Properties of the retry decorator\<close>

lemma retry_loop_raise_more:
  assumes "func (world run) = (Inl e, s')" and "attempt < max_retries - 1"
  shows "retry_loop ts max_retries d func attempt run =
         retry_loop ts max_retries d func (attempt + 1)
           (run\<lparr>world := ts d s', calls := calls run + 1, sleeps := sleeps run @ [d]\<rparr>)"
  using assms by (subst retry_loop.simps) simp

lemma retry_loop_raise_last:
  assumes "func (world run) = (Inl e, s')" and "attempt = max_retries - 1"
  shows "retry_loop ts max_retries d func attempt run =
         run\<lparr>returned := None, world := s', calls := calls run + 1\<rparr>"
  using assms by (subst retry_loop.simps) simp

lemma retry_loop_return:
  assumes "func (world run) = (Inr v, s')" and "attempt < max_retries"
  shows "retry_loop ts max_retries d func attempt run =
         run\<lparr>returned := v, world := s', calls := calls run + 1\<rparr>"
  using assms by (subst retry_loop.simps) simp

lemma retry_loop_always_raises:
  assumes "always_raises func" and "attempt < max_retries"
  shows "calls (retry_loop ts max_retries d func attempt run)
           = calls run + nat (max_retries - attempt)
       \<and> returned (retry_loop ts max_retries d func attempt run) = None
       \<and> sleeps (retry_loop ts max_retries d func attempt run)
           = sleeps run @ replicate (nat (max_retries - attempt - 1)) d"
  using assms
proof (induction ts max_retries d func attempt run rule: retry_loop.induct)
  case (1 ts max_retries d func attempt run)
  from "1.prems"(1) obtain e s' where f: "func (world run) = (Inl e, s')"
    unfolding always_raises_def by blast
  show ?case
  proof (cases "attempt < max_retries - 1")
    case True
    let ?run = "run\<lparr>world := ts d s', calls := calls run + 1, sleeps := sleeps run @ [d]\<rparr>"
    have step: "retry_loop ts max_retries d func attempt run =
                retry_loop ts max_retries d func (attempt + 1) ?run"
      using f True by (rule retry_loop_raise_more)
    have ih: "calls (retry_loop ts max_retries d func (attempt + 1) ?run)
                = calls ?run + nat (max_retries - (attempt + 1))
            \<and> returned (retry_loop ts max_retries d func (attempt + 1) ?run) = None
            \<and> sleeps (retry_loop ts max_retries d func (attempt + 1) ?run)
                = sleeps ?run @ replicate (nat (max_retries - (attempt + 1) - 1)) d"
      using "1.IH"[OF _ f[symmetric] refl True "1.prems"(1)] "1.prems"(2) True by simp
    have n1: "Suc (nat (max_retries - (attempt + 1))) = nat (max_retries - attempt)"
      using True by simp
    have n2: "nat (max_retries - attempt - 1) = Suc (nat (max_retries - (attempt + 1) - 1))"
      using True by simp
    show ?thesis
      unfolding step n2 using ih n1 by simp
  next
    case False
    with "1.prems"(2) have last: "attempt = max_retries - 1" by simp
    have stop: "retry_loop ts max_retries d func attempt run =
                run\<lparr>returned := None, world := s', calls := calls run + 1\<rparr>"
      using f last by (rule retry_loop_raise_last)
    show ?thesis
      unfolding stop using last by simp
  qed
qed

text \<open>
  C3. An operation that raises on every call, wrapped with \<open>max_retries = 3\<close>, is called
  exactly three times, each call on the world the one before left, with one sleep
  between two calls and none after the last: the world the wrapper leaves is the one the
  third call left. The wrapper then returns \<open>None\<close>; no exception of \<open>func\<close> leaves it, each
  one ends in the \<open>except Exception\<close> clause.
\<close>

theorem retry_always_failing_three_calls:
  fixes func :: "'s \<Rightarrow> (exn + 'a option) \<times> 's"
  assumes "always_raises func"
  shows "retry time_sleep 3 retry_delay func s
         = \<lparr>returned = None,
            world = snd (func (time_sleep retry_delay
                      (snd (func (time_sleep retry_delay (snd (func s))))))),
            calls = 3, sleeps = [retry_delay, retry_delay]\<rparr>"
proof -
  from assms obtain e1 s1 where c1: "func s = (Inl e1, s1)"
    unfolding always_raises_def by blast
  from assms obtain e2 s2 where c2: "func (time_sleep retry_delay s1) = (Inl e2, s2)"
    unfolding always_raises_def by blast
  from assms obtain e3 s3 where c3: "func (time_sleep retry_delay s2) = (Inl e3, s3)"
    unfolding always_raises_def by blast
  let ?r0 = "\<lparr>returned = None, world = s, calls = 0, sleeps = []\<rparr> :: ('a, 's) retry_run"
  let ?r1 = "?r0\<lparr>world := time_sleep retry_delay s1, calls := calls ?r0 + 1,
                 sleeps := sleeps ?r0 @ [retry_delay]\<rparr>"
  let ?r2 = "?r1\<lparr>world := time_sleep retry_delay s2, calls := calls ?r1 + 1,
                 sleeps := sleeps ?r1 @ [retry_delay]\<rparr>"
  have a: "retry_loop time_sleep 3 retry_delay func 0 ?r0
           = retry_loop time_sleep 3 retry_delay func (0 + 1) ?r1"
    by (rule retry_loop_raise_more[where e = e1 and s' = s1]) (simp_all add: c1)
  have b: "retry_loop time_sleep 3 retry_delay func (0 + 1) ?r1
           = retry_loop time_sleep 3 retry_delay func (0 + 1 + 1) ?r2"
    by (rule retry_loop_raise_more[where e = e2 and s' = s2]) (simp_all add: c2)
  have c: "retry_loop time_sleep 3 retry_delay func (0 + 1 + 1) ?r2
           = ?r2\<lparr>returned := None, world := s3, calls := calls ?r2 + 1\<rparr>"
    by (rule retry_loop_raise_last[where e = e3]) (simp_all add: c3)
  show ?thesis
    unfolding retry_def a b c by (simp add: c1 c2 c3)
qed

theorem retry_always_failing_three_calls_witness:
  "retry (\<lambda>d n. n) 3 1
     (\<lambda>n::nat. (Inl \<lparr>exn_type = ''ConnectionError'', exn_msg = ''down''\<rparr>
                   :: exn + nat option, Suc n)) 0
   = \<lparr>returned = None, world = 3, calls = 3, sleeps = [1, 1]\<rparr>"
proof -
  have h: "always_raises (\<lambda>n::nat. (Inl \<lparr>exn_type = ''ConnectionError'', exn_msg = ''down''\<rparr>
                              :: exn + nat option, Suc n))"
    by (simp add: always_raises_def)
  from retry_always_failing_three_calls[OF h, of "\<lambda>d n. n" 1 0]
  show ?thesis by (simp add: numeral_3_eq_3)
qed

text \<open>
  C7. An operation that raises on its first call and returns on its second, wrapped with
  \<open>max_retries = 3\<close>, is called exactly twice; the wrapper sleeps once, between the two
  calls, and returns what the second call returned.
\<close>

theorem retry_second_attempt_succeeds:
  fixes func :: "'s \<Rightarrow> (exn + 'a option) \<times> 's"
  assumes "func s = (Inl e, s1)"
      and "func (time_sleep retry_delay s1) = (Inr v, s2)"
  shows "retry time_sleep 3 retry_delay func s
         = \<lparr>returned = v, world = s2, calls = 2, sleeps = [retry_delay]\<rparr>"
proof -
  let ?r0 = "\<lparr>returned = None, world = s, calls = 0, sleeps = []\<rparr> :: ('a, 's) retry_run"
  let ?r1 = "?r0\<lparr>world := time_sleep retry_delay s1, calls := calls ?r0 + 1,
                 sleeps := sleeps ?r0 @ [retry_delay]\<rparr>"
  have a: "retry_loop time_sleep 3 retry_delay func 0 ?r0
           = retry_loop time_sleep 3 retry_delay func (0 + 1) ?r1"
    by (rule retry_loop_raise_more[where e = e and s' = s1]) (simp_all add: assms(1))
  have b: "retry_loop time_sleep 3 retry_delay func (0 + 1) ?r1
           = ?r1\<lparr>returned := v, world := s2, calls := calls ?r1 + 1\<rparr>"
    by (rule retry_loop_return) (simp_all add: assms(2))
  show ?thesis
    unfolding retry_def a b by simp
qed

theorem retry_second_attempt_succeeds_witness:
  "retry (\<lambda>d n. n) 3 1
     (\<lambda>n::nat. if n = 0 then (Inl \<lparr>exn_type = ''Timeout'', exn_msg = ''slow''\<rparr>, Suc n)
                else (Inr (Some ''300750''), Suc n)) 0
   = \<lparr>returned = Some ''300750'', world = 2, calls = 2, sleeps = [1]\<rparr>"
  using retry_second_attempt_succeeds[of
      "\<lambda>n::nat. if n = 0 then (Inl \<lparr>exn_type = ''Timeout'', exn_msg = ''slow''\<rparr>, Suc n)
                else (Inr (Some ''300750''), Suc n)"
      0 "\<lparr>exn_type = ''Timeout'', exn_msg = ''slow''\<rparr>" "Suc 0" "\<lambda>d n. n" 1
      "Some ''300750''" 2]
  by simp

section \<open>Properties of CacheManager.load\_cache\<close>




text \<open>
  An entry that has not expired and whose payload cannot be read (\<open>open\<close> or the read
  raises) or cannot be unpickled (\<open>pickle.load\<close> raises) is a miss: the exception ends in
  the \<open>except Exception\<close> clause of lines 50 to 55, and the store is left as it is.
\<close>

lemma load_cache_unreadable_fresh:
  assumes "fs (get_cache_path symbol data_type) = Some f"
      and "read_pickle pickle_load f = Inl e"
      and "now - st_mtime f \<le> of_int (expiry_hours * 3600)"
  shows "load_cache pickle_load now fs symbol data_type expiry_hours = (Inr None, fs)"
  using assms by (simp add: load_cache_def Let_def)

text \<open>
  C8, at a concrete input: a directory stands at \<open>cache/fund_flow_600000.pkl\<close>, last
  modified at time 1000, and the read is at 87401, more than 24 hours later. The payload
  cannot be read (\<open>open\<close> raises \<open>IsADirectoryError\<close>), and the read of the cache is not a
  miss: the entry has expired, \<open>unlink\<close> at line 47 raises outside the \<open>try\<close> of lines 50 to
  55, and the exception leaves \<open>load_cache\<close>. The same entry read within the 24 hours is a
  miss, as C8 says.
\<close>

theorem load_cache_expired_unreadable_raises:
  "read_pickle (Inr :: string \<Rightarrow> exn + string)
     \<lparr>st_mtime = 1000, stored = Inl is_a_directory, unlink_error = Some is_a_directory\<rparr>
     = Inl is_a_directory
   \<and> load_cache (Inr :: string \<Rightarrow> exn + string) 87401 directory_fs ''600000'' ''fund_flow'' 24
       = (Inl is_a_directory, directory_fs)
   \<and> load_cache (Inr :: string \<Rightarrow> exn + string) 2000 directory_fs ''600000'' ''fund_flow'' 24
       = (Inr None, directory_fs)"
  by (simp add: load_cache_def directory_fs_def read_pickle_def Let_def)

section \<open>Properties of StockDataFetcher.get\_stock\_data\<close>

lemma get_stock_data_one_call:
  assumes "get_stock_data_body fetch symbol st = (Inr v, st')"
  shows "get_stock_data ts fetch symbol st
         = \<lparr>returned = v, world = st', calls = 1, sleeps = []\<rparr>"
  unfolding get_stock_data_def retry_def
  by (subst retry_loop_return[where v = v and s' = st']) (simp_all add: assms)

lemma get_stock_data_body_never_raises:
  "\<exists>v st'. get_stock_data_body fetch symbol st = (Inr v, st')"
  by (auto simp: get_stock_data_body_def split: option.split sum.split prod.split)

lemma get_stock_data_hit:
  assumes "class_cache st symbol = Some df"
  shows "get_stock_data ts fetch symbol st
         = \<lparr>returned = Some df, world = st, calls = 1, sleeps = []\<rparr>"
  by (rule get_stock_data_one_call) (simp add: get_stock_data_body_def assms)

lemma get_stock_data_body_stores:
  assumes "get_stock_data_body fetch symbol st = (Inr (Some df), st')"
  shows "class_cache st' symbol = Some df"
  using assms
  by (auto simp: get_stock_data_body_def split: option.splits sum.splits prod.splits)

lemma get_stock_data_body_keeps:
  assumes "class_cache st symbol = Some df"
      and "get_stock_data_body fetch other st = (out, st')"
  shows "class_cache st' symbol = Some df"
  using assms
  by (auto simp: get_stock_data_body_def split: option.splits sum.splits prod.splits if_splits)

lemma get_stock_data_stores:
  assumes "returned (get_stock_data ts fetch symbol st) = Some df"
  shows "class_cache (world (get_stock_data ts fetch symbol st)) symbol = Some df"
proof -
  obtain v st' where b: "get_stock_data_body fetch symbol st = (Inr v, st')"
    using get_stock_data_body_never_raises by blast
  from get_stock_data_one_call[OF b, of ts] assms have "v = Some df" by simp
  with b have "class_cache st' symbol = Some df"
    by (simp add: get_stock_data_body_stores)
  with get_stock_data_one_call[OF b, of ts] show ?thesis by simp
qed

lemma get_stock_data_keeps:
  assumes "class_cache st symbol = Some df"
  shows "class_cache (world (get_stock_data ts fetch other st)) symbol = Some df"
proof -
  obtain v st' where b: "get_stock_data_body fetch other st = (Inr v, st')"
    using get_stock_data_body_never_raises by blast
  from get_stock_data_body_keeps[OF assms b] get_stock_data_one_call[OF b, of ts]
  show ?thesis by simp
qed

lemma get_stock_data_seq_keeps:
  assumes "class_cache st symbol = Some df"
  shows "class_cache (get_stock_data_seq ts fetch symbols st) symbol = Some df"
  using assms
  by (induction symbols arbitrary: st) (simp_all add: get_stock_data_keeps)

text \<open>
  C9. Once \<open>get_stock_data\<close> has returned a data frame for a symbol, every later call with
  that symbol, after any sequence of calls in between, returns that same data frame from
  the class dictionary in one call of the method body, and leaves the state, the outside
  world with it, as it was: nothing is fetched, whatever the fetch function of the later
  call would have given, and no age is looked at.
\<close>

theorem get_stock_data_memoised:
  assumes "returned (get_stock_data ts fetch symbol st) = Some df"
      and "later = get_stock_data_seq ts2 fetch2 symbols (world (get_stock_data ts fetch symbol st))"
  shows "get_stock_data ts3 fetch3 symbol later
         = \<lparr>returned = Some df, world = later, calls = 1, sleeps = []\<rparr>"
  unfolding assms(2)
  by (rule get_stock_data_hit, rule get_stock_data_seq_keeps, rule get_stock_data_stores)
     (rule assms(1))

theorem get_stock_data_memoised_witness:
  "get_stock_data (\<lambda>d s. s) (\<lambda>sym (n::nat). (Inr ''other'', Suc n)) ''300750''
     (get_stock_data_seq (\<lambda>d s. s) (\<lambda>sym n. (Inr ''x'', Suc n)) [''600000'']
        (world (get_stock_data (\<lambda>d s. s) (\<lambda>sym n. (Inr ''first'', Suc n)) ''300750''
                  \<lparr>class_cache = Map.empty, outside = 0\<rparr>)))
   = \<lparr>returned = Some ''first'',
      world = \<lparr>class_cache = [''300750'' \<mapsto> ''first'', ''600000'' \<mapsto> ''x''], outside = 2\<rparr>,
      calls = 1, sleeps = []\<rparr>"
proof -
  have b1: "get_stock_data_body (\<lambda>sym (n::nat). (Inr ''first'', Suc n)) ''300750''
              \<lparr>class_cache = Map.empty, outside = 0\<rparr>
            = (Inr (Some ''first''), \<lparr>class_cache = [''300750'' \<mapsto> ''first''], outside = Suc 0\<rparr>)"
    by (simp add: get_stock_data_body_def)
  have g1: "get_stock_data (\<lambda>d s. s) (\<lambda>sym (n::nat). (Inr ''first'', Suc n)) ''300750''
              \<lparr>class_cache = Map.empty, outside = 0\<rparr>
            = \<lparr>returned = Some ''first'',
               world = \<lparr>class_cache = [''300750'' \<mapsto> ''first''], outside = Suc 0\<rparr>,
               calls = 1, sleeps = []\<rparr>"
    by (rule get_stock_data_one_call[OF b1])
  have b2: "get_stock_data_body (\<lambda>sym (n::nat). (Inr ''x'', Suc n)) ''600000''
              \<lparr>class_cache = [''300750'' \<mapsto> ''first''], outside = Suc 0\<rparr>
            = (Inr (Some ''x''),
               \<lparr>class_cache = [''300750'' \<mapsto> ''first'', ''600000'' \<mapsto> ''x''], outside = 2\<rparr>)"
    by (simp add: get_stock_data_body_def)
  have g2: "get_stock_data_seq (\<lambda>d s. s) (\<lambda>sym (n::nat). (Inr ''x'', Suc n)) [''600000'']
              \<lparr>class_cache = [''300750'' \<mapsto> ''first''], outside = Suc 0\<rparr>
            = \<lparr>class_cache = [''300750'' \<mapsto> ''first'', ''600000'' \<mapsto> ''x''], outside = 2\<rparr>"
    by (simp add: get_stock_data_one_call[OF b2])
  have h: "returned (get_stock_data (\<lambda>d s. s) (\<lambda>sym (n::nat). (Inr ''first'', Suc n)) ''300750''
              \<lparr>class_cache = Map.empty, outside = 0\<rparr>) = Some ''first''"
    by (simp add: g1)
  from get_stock_data_memoised[OF h refl,
      of "\<lambda>d s. s" "\<lambda>sym (n::nat). (Inr ''other'', Suc n)" "\<lambda>d s. s"
         "\<lambda>sym (n::nat). (Inr ''x'', Suc n)" "[''600000'']"]
  show ?thesis by (simp add: g1 get_stock_data_one_call[OF b2])
qed


section \<open>Properties of process\_response\<close>

lemma consume_skip_no_choices:
  "consume r acc (pre @ Yield no_choices_chunk # post) = consume r acc (pre @ post)"
proof (induction pre arbitrary: r acc)
  case Nil
  show ?case by (simp add: no_choices_chunk_def)
next
  case (Cons ev pre)
  show ?case
    by (cases ev) (simp_all add: Cons.IH split: list.split option.split)
qed

lemma consume_skip_no_delta:
  "consume r acc (pre @ Yield (no_delta_chunk fr others) # post) = consume r acc (pre @ post)"
proof (induction pre arbitrary: r acc)
  case Nil
  show ?case by (simp add: no_delta_chunk_def)
next
  case (Cons ev pre)
  show ?case
    by (cases ev) (simp_all add: Cons.IH split: list.split option.split)
qed

lemma consume_strip_reasoning_step:
  assumes "\<And>r r' acc. visible (consume r acc xs) = visible (consume r' acc ys)"
  shows "visible (consume r acc (strip_reasoning ev # xs)) = visible (consume r' acc (ev # ys))"
proof (cases ev)
  case (Raise e)
  then show ?thesis by (simp add: strip_reasoning_def visible_def)
next
  case (Yield ch)
  show ?thesis
  proof (cases "choices ch")
    case Nil
    with Yield assms[where r = r and r' = r' and acc = acc] show ?thesis
      by (simp add: strip_reasoning_def)
  next
    case (Cons first_choice others)
    show ?thesis
    proof (cases "delta first_choice")
      case None
      with Yield Cons assms[where r = r and r' = r' and acc = acc] show ?thesis
        by (simp add: strip_reasoning_def)
    next
      case (Some d)
      show ?thesis
      proof (cases "finish_reason first_choice = Some ''stop''")
        case True
        with Yield Cons Some show ?thesis
          by (simp add: strip_reasoning_def visible_def)
      next
        case False
        with Yield Cons Some
          assms[where r = r
              and r' = "r' @ (case reasoning_content d of None \<Rightarrow> [] | Some x \<Rightarrow> x)"
              and acc = "acc @ (case content d of None \<Rightarrow> [] | Some c \<Rightarrow> c)"]
        show ?thesis
          by (simp add: strip_reasoning_def)
      qed
    qed
  qed
qed

lemma consume_strip_reasoning:
  "visible (consume r acc (map strip_reasoning response)) = visible (consume r' acc response)"
proof (induction response arbitrary: r r' acc)
  case Nil
  show ?case by (simp add: visible_def)
next
  case (Cons ev response)
  show ?case
    unfolding list.map by (rule consume_strip_reasoning_step) (rule Cons.IH)
qed

lemma process_response_visible:
  "process_response response m a =
     (case visible (consume [] [] response) of
        Inl e \<Rightarrow> None | Inr (acc, fin) \<Rightarrow> if fin then Some acc else None)"
  by (simp add: process_response_def visible_def split: sum.split prod.split)

lemma consume_unfinished_prefix:
  assumes "\<forall>ch \<in> set pre. \<not> finishes ch"
  shows "\<exists>r'. consume r acc (map Yield pre @ rest)
              = consume r' (acc @ concat (map content_of pre)) rest"
  using assms
proof (induction pre arbitrary: r acc)
  case Nil
  show ?case by auto
next
  case (Cons ch pre)
  from Cons.prems have nf: "\<not> finishes ch" and rest: "\<forall>c \<in> set pre. \<not> finishes c"
    by simp_all
  show ?case
  proof (cases "choices ch")
    case Nil
    with Cons.IH[OF rest, of r acc] show ?thesis
      by (simp add: content_of_def)
  next
    case (Cons first_choice others)
    show ?thesis
    proof (cases "delta first_choice")
      case None
      with Cons Cons.IH[OF rest, of r acc] show ?thesis
        by (simp add: content_of_def)
    next
      case (Some d)
      with Cons nf have "finish_reason first_choice \<noteq> Some ''stop''"
        by (simp add: finishes_def)
      with Some Cons
        Cons.IH[OF rest, of "r @ (case reasoning_content d of None \<Rightarrow> [] | Some x \<Rightarrow> x)"
                          "acc @ (case content d of None \<Rightarrow> [] | Some c \<Rightarrow> c)"]
      show ?thesis
        by (simp add: content_of_def)
    qed
  qed
qed

text \<open>
  C5. The chunk sequence content \<open>a\<close>, content \<open>b\<close>, finish resolves to \<open>ab\<close>; the sequence
  content \<open>a\<close> alone, which ends without a finish chunk, resolves to \<open>None\<close>. A chunk with no
  choices, and a chunk whose first choice has no delta, can be put anywhere in a stream
  without changing the result. Removing every reasoning fragment from a stream does not
  change the result either, so no reasoning fragment is part of it.
\<close>

theorem stream_assembler_examples:
  "process_response
     [Yield (content_chunk ''a''), Yield (content_chunk ''b''), Yield (finish_chunk None)]
     max_retries attempt = Some ''ab''
 \<and> process_response [Yield (content_chunk ''a'')] max_retries attempt = None
 \<and> process_response (pre @ Yield no_choices_chunk # post) max_retries attempt
     = process_response (pre @ post) max_retries attempt
 \<and> process_response (pre @ Yield (no_delta_chunk fr others) # post) max_retries attempt
     = process_response (pre @ post) max_retries attempt
 \<and> process_response (map strip_reasoning response) max_retries attempt
     = process_response response max_retries attempt"
proof -
  have a: "process_response
     [Yield (content_chunk ''a''), Yield (content_chunk ''b''), Yield (finish_chunk None)]
     max_retries attempt = Some ''ab''"
    by (simp add: process_response_def content_chunk_def finish_chunk_def)
  have b: "process_response [Yield (content_chunk ''a'')] max_retries attempt = None"
    by (simp add: process_response_def content_chunk_def)
  have c: "process_response (pre @ Yield no_choices_chunk # post) max_retries attempt
     = process_response (pre @ post) max_retries attempt"
    by (simp add: process_response_def consume_skip_no_choices)
  have d: "process_response (pre @ Yield (no_delta_chunk fr others) # post) max_retries attempt
     = process_response (pre @ post) max_retries attempt"
    by (simp add: process_response_def consume_skip_no_delta)
  have e: "process_response (map strip_reasoning response) max_retries attempt
     = process_response response max_retries attempt"
    by (simp add: process_response_visible consume_strip_reasoning[of "[]" "[]" response "[]"])
  from a b c d e show ?thesis by blast
qed

text \<open>
  C10. When the chunks before the finish chunk do not finish the stream themselves, the
  result is the concatenation of their content fragments: a content fragment carried by
  the finish chunk itself is not part of it (the loop is left at line 43, before line 47),
  and nothing after the finish chunk is read.
\<close>

theorem finish_chunk_content_dropped:
  assumes "\<forall>ch \<in> set pre. \<not> finishes ch"
  shows "process_response (map Yield pre @ Yield (finish_chunk (Some c)) # post)
           max_retries attempt
         = Some (concat (map content_of pre))"
proof -
  from consume_unfinished_prefix[OF assms, of "[]" "[]" "Yield (finish_chunk (Some c)) # post"]
  obtain r' where
    "consume [] [] (map Yield pre @ Yield (finish_chunk (Some c)) # post)
       = consume r' (concat (map content_of pre)) (Yield (finish_chunk (Some c)) # post)"
    by auto
  then show ?thesis
    by (simp add: process_response_def finish_chunk_def)
qed

theorem finish_chunk_content_dropped_witness:
  "process_response
     [Yield (content_chunk ''a''), Yield (reasoning_chunk ''hm''), Yield (content_chunk ''b''),
      Yield (finish_chunk (Some ''c''))] 5 0 = Some ''ab''"
proof -
  have h: "\<forall>ch \<in> set [content_chunk ''a'', reasoning_chunk ''hm'', content_chunk ''b''].
             \<not> finishes ch"
    by (simp add: finishes_def content_chunk_def reasoning_chunk_def)
  from finish_chunk_content_dropped[OF h, of "''c''" "[]" 5 0]
  show ?thesis
    by (simp add: content_of_def content_chunk_def reasoning_chunk_def)
qed

section \<open>Properties of askDeepSeek\<close>

lemma process_response_args:
  "process_response response m a = process_response response m' a'"
  by (simp add: process_response_def)

lemma ask_loop_stop:
  assumes "\<not> attempt < max_retries"
  shows "ask_loop create ts p u max_retries attempt run = run\<lparr>answer := msg_not_finished\<rparr>"
  using assms by (subst ask_loop.simps) simp

lemma ask_loop_failed_attempt:
  assumes "attempt < max_retries"
      and "create p u (ask_world run) = (out, w')"
      and "attempt_fails out"
  shows "\<exists>run'. requests run' = requests run + 1
             \<and> ask_loop create ts p u max_retries attempt run
               = ask_loop create ts p u max_retries (attempt + 1) run'"
proof (cases out)
  case (Inl e)
  let ?run' = "if attempt < max_retries - 1 then
                 run\<lparr>ask_world := ts (if contains ''API'' (str e) then 5 else 2) w',
                     requests := requests run + 1,
                     ask_sleeps := ask_sleeps run @ [if contains ''API'' (str e) then 5 else 2]\<rparr>
               else run\<lparr>ask_world := w', requests := requests run + 1\<rparr>"
  have "ask_loop create ts p u max_retries attempt run
        = ask_loop create ts p u max_retries (attempt + 1) ?run'"
    by (subst ask_loop.simps) (simp add: assms(1) assms(2)[unfolded Inl])
  moreover have "requests ?run' = requests run + 1" by simp
  ultimately show ?thesis by blast
next
  case (Inr response)
  with assms(3) have none: "process_response response max_retries attempt = None"
    by (simp add: attempt_fails_def process_response_args[of response max_retries attempt 0 0])
  let ?run' = "run\<lparr>ask_world := w', requests := requests run + 1\<rparr>"
  have "ask_loop create ts p u max_retries attempt run
        = ask_loop create ts p u max_retries (attempt + 1) ?run'"
    by (subst ask_loop.simps) (simp add: assms(1) assms(2)[unfolded Inr] none)
  moreover have "requests ?run' = requests run + 1" by simp
  ultimately show ?thesis by blast
qed

lemma ask_loop_reply:
  assumes "attempt < max_retries"
      and "create p u (ask_world run) = (Inr response, w')"
      and "process_response response max_retries attempt = Some c" and "c \<noteq> []"
  shows "ask_loop create ts p u max_retries attempt run
         = run\<lparr>answer := c, ask_world := w', requests := requests run + 1\<rparr>"
  using assms by (subst ask_loop.simps) simp

lemma ask_loop_all_fail:
  assumes "every_attempt_fails create"
  shows "nat (max_retries - attempt) = n \<Longrightarrow>
         answer (ask_loop create ts p u max_retries attempt run) = msg_not_finished
       \<and> requests (ask_loop create ts p u max_retries attempt run) = requests run + n"
proof (induction n arbitrary: attempt run)
  case 0
  then have "\<not> attempt < max_retries" by simp
  then show ?case by (simp add: ask_loop_stop)
next
  case (Suc n)
  then have lt: "attempt < max_retries" and n: "nat (max_retries - (attempt + 1)) = n"
    by simp_all
  obtain out w' where c: "create p u (ask_world run) = (out, w')"
    by (cases "create p u (ask_world run)")
  from assms have "attempt_fails (fst (create p u (ask_world run)))"
    unfolding every_attempt_fails_def by blast
  with c have f: "attempt_fails out" by simp
  from ask_loop_failed_attempt[where create = create and p = p and u = u and run = run
      and out = out and w' = w' and ts = ts, OF lt c f] obtain run' where
    r: "requests run' = requests run + 1" and
    s: "ask_loop create ts p u max_retries attempt run
        = ask_loop create ts p u max_retries (attempt + 1) run'"
    by blast
  from Suc.IH[OF n, of run'] r show ?case
    unfolding s by simp
qed

lemma askDeepSeek_all_fail:
  assumes "every_attempt_fails create" and "\<not> df_empty df"
      and "df_to_json df = Inr stock_json" and "fund_flow_json ff = Inr flow_json"
  shows "\<exists>run. askDeepSeek create ts (Some df) ff code prompt max_retries w = Inr run
             \<and> answer run = msg_not_finished \<and> requests run = nat max_retries"
  using assms ask_loop_all_fail[OF assms(1), of max_retries 0 "nat max_retries" ts prompt
      "build_user_content code stock_json flow_json"
      "\<lparr>answer = [], ask_world = w, requests = 0, ask_sleeps = []\<rparr>"]
  by (simp add: askDeepSeek_def)

lemma analyze_with_engine_exhausted:
  assumes "every_attempt_fails (chat_create env)"
      and "fetch_stock_data env code w = (Inr (Some df), w1)" and "\<not> df_empty df"
      and "df_to_json df = Inr stock_json"
      and "fetch_fund_flow env code w1 = (Inr ff, w2)" and "fund_flow_json ff = Inr flow_json"
      and "make_prompt env code df ff w2 = (Inr prompt, w3)"
  shows "fst (analyze_with fallback ai_reason env code w) = Reply msg_not_finished"
proof -
  from askDeepSeek_all_fail[OF assms(1) assms(3) assms(4) assms(6),
      of "sleep_for env" code prompt 5 w3]
  obtain run where
    "askDeepSeek (chat_create env) (sleep_for env) (Some df) ff code prompt 5 w3 = Inr run"
    and "answer run = msg_not_finished"
    by blast
  with assms show ?thesis
    by (simp add: analyze_with_def)
qed

text \<open>
  When every attempt fails (the request raises, or its stream ends or breaks before a
  finish signal), \<open>askDeepSeek\<close> makes \<open>max_retries\<close> requests, raises nothing and returns
  the message of line 129; \<open>PhaseHunterAgent.analyze\<close> returns that message as its result.
\<close>

lemma engine_exhausted_returns_message:
  assumes "every_attempt_fails (chat_create env)"
      and "fetch_stock_data env code w = (Inr (Some df), w1)" and "\<not> df_empty df"
      and "df_to_json df = Inr stock_json"
      and "fetch_fund_flow env code w1 = (Inr ff, w2)" and "fund_flow_json ff = Inr flow_json"
      and "make_prompt env code df ff w2 = (Inr prompt, w3)"
  shows "(\<exists>run. askDeepSeek (chat_create env) (sleep_for env) (Some df) ff code prompt
                  max_retries w3 = Inr run
              \<and> answer run = msg_not_finished \<and> requests run = nat max_retries)
       \<and> fst (PhaseHunterAgent_analyze env code w) = Reply msg_not_finished"
  using askDeepSeek_all_fail[OF assms(1) assms(3) assms(4) assms(6)]
        analyze_with_engine_exhausted[OF assms]
  by (simp add: PhaseHunterAgent_analyze_def)

lemma engine_down_fails: "every_attempt_fails (chat_create engine_down)"
  by (simp add: every_attempt_fails_def engine_down_def attempt_fails_def)

text \<open>
  C6, at a concrete input: the stock data of 300750 is there and each of the five requests
  to the engine raises. \<open>askDeepSeek\<close> makes its five requests and raises nothing, as C6
  says; but what the role returns is the message string of line 129, not the fallback
  record: it has no fields at all, and the branch of \<open>analyze\<close> that builds the fallback
  record for a failed engine call (lines 102 to 115) is not reached.
\<close>

theorem engine_down_role_returns_message:
  "every_attempt_fails (chat_create engine_down)
   \<and> (\<exists>run. askDeepSeek (chat_create engine_down) (sleep_for engine_down)
               (Some \<lparr>df_empty = False, df_to_json = Inr ''[]''\<rparr>) None ''300750''
               (Some ''prompt'') 5 () = Inr run
            \<and> answer run = msg_not_finished \<and> requests run = 5)
   \<and> fst (PhaseHunterAgent_analyze engine_down ''300750'' ()) = Reply msg_not_finished
   \<and> field_names (fst (PhaseHunterAgent_analyze engine_down ''300750'' ())) = None
   \<and> field key_confidence (fst (PhaseHunterAgent_analyze engine_down ''300750'' ())) = None
   \<and> field key_reason (fst (PhaseHunterAgent_analyze engine_down ''300750'' ())) = None"
proof -
  have ask: "\<exists>run. askDeepSeek (chat_create engine_down) (sleep_for engine_down)
               (Some \<lparr>df_empty = False, df_to_json = Inr ''[]''\<rparr>) None ''300750''
               (Some ''prompt'') 5 () = Inr run
            \<and> answer run = msg_not_finished \<and> requests run = 5"
    using askDeepSeek_all_fail[where create = "chat_create engine_down"
        and df = "\<lparr>df_empty = False, df_to_json = Inr ''[]''\<rparr>" and stock_json = "''[]''"
        and ff = None and flow_json = "[]" and ts = "sleep_for engine_down"
        and code = "''300750''" and prompt = "Some ''prompt''" and max_retries = 5
        and w = "()"]
      engine_down_fails
    by (simp add: fund_flow_json_def)
  have role: "fst (analyze_with phase_hunter_fallback reason_ai_failed engine_down ''300750'' ())
        = Reply msg_not_finished"
    by (rule analyze_with_engine_exhausted[where ?w1.0 = "()" and ?w2.0 = "()" and ?w3.0 = "()"
          and df = "\<lparr>df_empty = False, df_to_json = Inr ''[]''\<rparr>" and stock_json = "''[]''"
          and ff = None and flow_json = "[]" and prompt = "Some ''prompt''"])
       (simp_all add: engine_down_fails, simp_all add: engine_down_def fund_flow_json_def)
  have fields: "field_names (Reply msg_not_finished) = None
              \<and> field key_confidence (Reply msg_not_finished) = None
              \<and> field key_reason (Reply msg_not_finished) = None"
    by (simp add: field_names_def field_def)
  show ?thesis
    unfolding PhaseHunterAgent_analyze_def role
    using ask fields engine_down_fails by blast
qed

section \<open>Properties of the roles\<close>

lemma analyze_with_reply:
  assumes "fetch_stock_data env code w = (Inr (Some df), w1)" and "\<not> df_empty df"
      and "fetch_fund_flow env code w1 = (Inr ff, w2)"
      and "make_prompt env code df ff w2 = (Inr prompt, w3)"
      and "askDeepSeek (chat_create env) (sleep_for env) (Some df) ff code prompt 5 w3 = Inr run"
  shows "analyze_with fallback ai_reason env code w = (Reply (answer run), ask_world run)"
  using assms by (simp add: analyze_with_def)

lemma analyze_with_no_data:
  assumes "fetch_stock_data env code w = (Inr None, w1)"
  shows "analyze_with fallback ai_reason env code w
         = (fallback reason_analyze_failed value_error, w1)"
  using assms by (simp add: analyze_with_def)

lemma analyze_with_reply_or_fallback:
  assumes shaped: "\<And>p e. fallback_shaped names (fallback p e)"
  shows "reply_or_fallback fallback names env code w
           (fst (analyze_with fallback ai_reason env code w))"
proof -
  have fb: "\<And>p e. reply_or_fallback fallback names env code w (fallback p e)"
    unfolding reply_or_fallback_def using shaped by blast
  obtain out w1 where f: "fetch_stock_data env code w = (out, w1)"
    by (cases "fetch_stock_data env code w")
  show ?thesis
  proof (cases out)
    case (Inl e)
    with f show ?thesis by (simp add: analyze_with_def fb)
  next
    case (Inr stock_data)
    show ?thesis
    proof (cases stock_data)
      case None
      with f Inr show ?thesis by (simp add: analyze_with_def fb)
    next
      case (Some df)
      show ?thesis
      proof (cases "df_empty df")
        case True
        with f Inr Some show ?thesis by (simp add: analyze_with_def fb)
      next
        case False
        obtain out2 w2 where g: "fetch_fund_flow env code w1 = (out2, w2)"
          by (cases "fetch_fund_flow env code w1")
        show ?thesis
        proof (cases out2)
          case (Inl e)
          with f Inr Some False g show ?thesis by (simp add: analyze_with_def fb)
        next
          case ff: (Inr ff)
          obtain out3 w3 where h: "make_prompt env code df ff w2 = (out3, w3)"
            by (cases "make_prompt env code df ff w2")
          show ?thesis
          proof (cases out3)
            case (Inl e)
            with f Inr Some False g ff h show ?thesis by (simp add: analyze_with_def fb)
          next
            case pr: (Inr prompt)
            show ?thesis
            proof (cases "askDeepSeek (chat_create env) (sleep_for env) (Some df) ff code
                            prompt 5 w3")
              case (Inl e)
              with f Inr Some False g ff h pr show ?thesis
                by (simp add: analyze_with_def fb)
            next
              case run: (Inr run)
              have "fst (analyze_with fallback ai_reason env code w) = Reply (answer run)"
                using f Inr Some False g ff h pr run by (simp add: analyze_with_def)
              moreover have "reply_or_fallback fallback names env code w (Reply (answer run))"
                unfolding reply_or_fallback_def
                using f Inr Some False g ff h pr run by blast
              ultimately show ?thesis by simp
            qed
          qed
        qed
      qed
    qed
  qed
qed

lemmas key_defs =
  key_role_def key_signal_def key_phase_score_def key_structure_def key_market_impact_def
  key_stop_loss_def key_confidence_def key_reason_def key_effort_ratio_def key_anomalies_def
  key_institution_def key_risk_warning_def key_events_def key_event_confirmed_def
  key_failure_risk_def key_cause_space_def key_k_value_def key_target_price_def
  key_reward_risk_def key_executable_def key_relative_strength_def key_sector_sync_def
  key_fund_flow_def key_score_adjust_def

lemma phase_hunter_fallback_shaped:
  "fallback_shaped phase_hunter_fields (phase_hunter_fallback p e)"
  by (simp add: fallback_shaped_def phase_hunter_fallback_def phase_hunter_fields_def
      field_names_def field_def key_defs)

lemma volume_detective_fallback_shaped:
  "fallback_shaped volume_detective_fields (volume_detective_fallback p e)"
  by (simp add: fallback_shaped_def volume_detective_fallback_def volume_detective_fields_def
      field_names_def field_def key_defs)

lemma spring_hunter_fallback_shaped:
  "fallback_shaped spring_hunter_fields (spring_hunter_fallback p e)"
  by (simp add: fallback_shaped_def spring_hunter_fallback_def spring_hunter_fields_def
      field_names_def field_def key_defs)

lemma target_engineer_fallback_shaped:
  "fallback_shaped target_engineer_fields (target_engineer_fallback p e)"
  by (simp add: fallback_shaped_def target_engineer_fallback_def target_engineer_fields_def
      field_names_def field_def key_defs)

lemma strength_commander_fallback_shaped:
  "fallback_shaped strength_commander_fields (strength_commander_fallback p e)"
  by (simp add: fallback_shaped_def strength_commander_fallback_def
      strength_commander_fields_def field_names_def field_def key_defs)

lemma runner_of_returning:
  "run_phase_hunter_agent (returning f) code w = f code w"
  "run_volume_detective_agent (returning f) code w = f code w"
  "run_spring_hunter_agent (returning f) code w = f code w"
  "run_target_engineer_agent (returning f) code w = f code w"
  "run_strength_commander_agent (returning f) code w = f code w"
  by (simp_all add: run_phase_hunter_agent_def run_volume_detective_agent_def
      run_spring_hunter_agent_def run_target_engineer_agent_def
      run_strength_commander_agent_def returning_def split: prod.split)

lemmas analyze_defs =
  PhaseHunterAgent_analyze_def VolumeDetectiveAgent_analyze_def SpringHunterAgent_analyze_def
  TargetEngineerAgent_analyze_def StrengthCommanderAgent_analyze_def

text \<open>
  C2, as the code has it. For every run of a role, each of the five, whatever the
  fetches and the engine do, the result is either the string \<open>askDeepSeek\<close> returned for
  the data fetched in that run, as it is, or a fallback dictionary of the role, which
  always has the fields of the role in their order, the signal neutral, the confidence 50
  and a reason string. When the data is fetched, the prompt is built and \<open>askDeepSeek\<close>
  returns, every role returns that string; when \<open>get_stock_data\<close> returns \<open>None\<close>, every
  role returns its fallback dictionary for the \<open>ValueError\<close> of \<open>analyze\<close>.
\<close>

theorem role_results_reply_or_fallback:
  "reply_or_fallback phase_hunter_fallback phase_hunter_fields env code w
     (fst (run_phase_hunter_agent (returning (PhaseHunterAgent_analyze env)) code w))
 \<and> reply_or_fallback volume_detective_fallback volume_detective_fields env code w
     (fst (run_volume_detective_agent (returning (VolumeDetectiveAgent_analyze env)) code w))
 \<and> reply_or_fallback spring_hunter_fallback spring_hunter_fields env code w
     (fst (run_spring_hunter_agent (returning (SpringHunterAgent_analyze env)) code w))
 \<and> reply_or_fallback target_engineer_fallback target_engineer_fields env code w
     (fst (run_target_engineer_agent (returning (TargetEngineerAgent_analyze env)) code w))
 \<and> reply_or_fallback strength_commander_fallback strength_commander_fields env code w
     (fst (run_strength_commander_agent (returning (StrengthCommanderAgent_analyze env)) code w))
 \<and> (fetch_stock_data env code w = (Inr (Some df), w1) \<and> \<not> df_empty df
      \<and> fetch_fund_flow env code w1 = (Inr ff, w2)
      \<and> make_prompt env code df ff w2 = (Inr prompt, w3)
      \<and> askDeepSeek (chat_create env) (sleep_for env) (Some df) ff code prompt 5 w3 = Inr run
    \<longrightarrow> map (\<lambda>analyze. fst (analyze env code w))
          [PhaseHunterAgent_analyze, VolumeDetectiveAgent_analyze, SpringHunterAgent_analyze,
           TargetEngineerAgent_analyze, StrengthCommanderAgent_analyze]
        = replicate 5 (Reply (answer run)))
 \<and> (fetch_stock_data env code w = (Inr None, w1)
    \<longrightarrow> map (\<lambda>analyze. fst (analyze env code w))
          [PhaseHunterAgent_analyze, VolumeDetectiveAgent_analyze, SpringHunterAgent_analyze,
           TargetEngineerAgent_analyze, StrengthCommanderAgent_analyze]
        = [phase_hunter_fallback reason_analyze_failed value_error,
           volume_detective_fallback reason_analyze_failed value_error,
           spring_hunter_fallback reason_analyze_failed value_error,
           target_engineer_fallback reason_analyze_failed value_error,
           strength_commander_fallback reason_analyze_failed value_error])"
proof -
  have reply: "fetch_stock_data env code w = (Inr (Some df), w1) \<and> \<not> df_empty df
      \<and> fetch_fund_flow env code w1 = (Inr ff, w2)
      \<and> make_prompt env code df ff w2 = (Inr prompt, w3)
      \<and> askDeepSeek (chat_create env) (sleep_for env) (Some df) ff code prompt 5 w3 = Inr run
    \<longrightarrow> map (\<lambda>analyze. fst (analyze env code w))
          [PhaseHunterAgent_analyze, VolumeDetectiveAgent_analyze, SpringHunterAgent_analyze,
           TargetEngineerAgent_analyze, StrengthCommanderAgent_analyze]
        = replicate 5 (Reply (answer run))"
    by (simp add: analyze_defs analyze_with_reply numeral_eq_Suc)
  have nodata: "fetch_stock_data env code w = (Inr None, w1)
    \<longrightarrow> map (\<lambda>analyze. fst (analyze env code w))
          [PhaseHunterAgent_analyze, VolumeDetectiveAgent_analyze, SpringHunterAgent_analyze,
           TargetEngineerAgent_analyze, StrengthCommanderAgent_analyze]
        = [phase_hunter_fallback reason_analyze_failed value_error,
           volume_detective_fallback reason_analyze_failed value_error,
           spring_hunter_fallback reason_analyze_failed value_error,
           target_engineer_fallback reason_analyze_failed value_error,
           strength_commander_fallback reason_analyze_failed value_error]"
    by (simp add: analyze_defs analyze_with_no_data)
  show ?thesis
    unfolding runner_of_returning analyze_defs
    by (intro conjI analyze_with_reply_or_fallback phase_hunter_fallback_shaped
        volume_detective_fallback_shaped spring_hunter_fallback_shaped
        target_engineer_fallback_shaped strength_commander_fallback_shaped
        reply[unfolded analyze_defs] nodata[unfolded analyze_defs])
qed

lemma engine_replies_run:
  "askDeepSeek (chat_create engine_replies) (sleep_for engine_replies)
     (Some \<lparr>df_empty = False, df_to_json = Inr ''[]''\<rparr>) None ''300750'' (Some ''prompt'') 5 ()
   = Inr \<lparr>answer = ''ok'', ask_world = (), requests = 1, ask_sleeps = []\<rparr>"
proof -
  have "ask_loop (chat_create engine_replies) (sleep_for engine_replies) (Some ''prompt'')
          (build_user_content ''300750'' ''[]'' []) 5 0
          \<lparr>answer = [], ask_world = (), requests = 0, ask_sleeps = []\<rparr>
        = \<lparr>answer = [], ask_world = (), requests = 0, ask_sleeps = []\<rparr>
            \<lparr>answer := ''ok'', ask_world := (),
             requests := requests \<lparr>answer = [], ask_world = (), requests = 0, ask_sleeps = []\<rparr> + 1\<rparr>"
    by (rule ask_loop_reply[where response = "[Yield (content_chunk ''ok''), Yield (finish_chunk None)]"])
       (simp_all add: engine_replies_def process_response_def content_chunk_def finish_chunk_def)
  then show ?thesis
    by (simp add: askDeepSeek_def fund_flow_json_def)
qed

lemma analyze_with_engine_replies:
  "analyze_with fallback ai_reason engine_replies ''300750'' () = (Reply ''ok'', ())"
  using analyze_with_reply[where env = engine_replies and code = "''300750''"
      and w = "()" and ?w1.0 = "()" and ?w2.0 = "()" and ?w3.0 = "()"
      and df = "\<lparr>df_empty = False, df_to_json = Inr ''[]''\<rparr>" and ff = None
      and prompt = "Some ''prompt''"
      and run = "\<lparr>answer = ''ok'', ask_world = (), requests = 1, ask_sleeps = []\<rparr>"
      and fallback = fallback and ai_reason = ai_reason]
    engine_replies_run
  by (simp add: engine_replies_def)

lemma analyze_with_no_data_example:
  "analyze_with fallback ai_reason no_data ''300750'' ()
   = (fallback reason_analyze_failed value_error, ())"
  by (rule analyze_with_no_data) (simp add: no_data_def)

theorem role_results_reply_or_fallback_witness:
  "map (\<lambda>analyze. fst (analyze engine_replies ''300750'' ()))
     [PhaseHunterAgent_analyze, VolumeDetectiveAgent_analyze, SpringHunterAgent_analyze,
      TargetEngineerAgent_analyze, StrengthCommanderAgent_analyze]
   = replicate 5 (Reply ''ok'')
 \<and> map (\<lambda>analyze. fst (analyze no_data ''300750'' ()))
     [PhaseHunterAgent_analyze, VolumeDetectiveAgent_analyze, SpringHunterAgent_analyze,
      TargetEngineerAgent_analyze, StrengthCommanderAgent_analyze]
   = [phase_hunter_fallback reason_analyze_failed value_error,
      volume_detective_fallback reason_analyze_failed value_error,
      spring_hunter_fallback reason_analyze_failed value_error,
      target_engineer_fallback reason_analyze_failed value_error,
      strength_commander_fallback reason_analyze_failed value_error]"
proof -
  have a: "fetch_stock_data engine_replies ''300750'' ()
             = (Inr (Some \<lparr>df_empty = False, df_to_json = Inr ''[]''\<rparr>), ())
         \<and> \<not> df_empty \<lparr>df_empty = False, df_to_json = Inr ''[]''\<rparr>
         \<and> fetch_fund_flow engine_replies ''300750'' () = (Inr None, ())
         \<and> make_prompt engine_replies ''300750'' \<lparr>df_empty = False, df_to_json = Inr ''[]''\<rparr>
             None () = (Inr (Some ''prompt''), ())"
    by (simp add: engine_replies_def)
  have b: "fetch_stock_data no_data ''300750'' () = (Inr None, ())"
    by (simp add: no_data_def)
  from role_results_reply_or_fallback[where env = engine_replies and code = "''300750''"
      and w = "()" and ?w1.0 = "()" and ?w2.0 = "()" and ?w3.0 = "()"
      and df = "\<lparr>df_empty = False, df_to_json = Inr ''[]''\<rparr>" and ff = None
      and prompt = "Some ''prompt''"
      and run = "\<lparr>answer = ''ok'', ask_world = (), requests = 1, ask_sleeps = []\<rparr>"]
    a engine_replies_run
  have first: "map (\<lambda>analyze. fst (analyze engine_replies ''300750'' ()))
     [PhaseHunterAgent_analyze, VolumeDetectiveAgent_analyze, SpringHunterAgent_analyze,
      TargetEngineerAgent_analyze, StrengthCommanderAgent_analyze]
   = replicate 5 (Reply ''ok'')"
    by simp
  from role_results_reply_or_fallback[where env = no_data and code = "''300750''"
      and w = "()" and ?w1.0 = "()"] b
  have second: "map (\<lambda>analyze. fst (analyze no_data ''300750'' ()))
     [PhaseHunterAgent_analyze, VolumeDetectiveAgent_analyze, SpringHunterAgent_analyze,
      TargetEngineerAgent_analyze, StrengthCommanderAgent_analyze]
   = [phase_hunter_fallback reason_analyze_failed value_error,
      volume_detective_fallback reason_analyze_failed value_error,
      spring_hunter_fallback reason_analyze_failed value_error,
      target_engineer_fallback reason_analyze_failed value_error,
      strength_commander_fallback reason_analyze_failed value_error]"
    by simp
  from first second show ?thesis by (rule conjI)
qed

text \<open>
  C2 as stated fails: a run of the phase hunter that succeeds returns a string, which
  has no fields, where a run that falls back returns a dictionary of nine fields.
\<close>

theorem success_is_text_counterexample:
  "fst (run_phase_hunter_agent (returning (PhaseHunterAgent_analyze engine_replies))
          ''300750'' ()) = Reply ''ok''
 \<and> field_names (fst (run_phase_hunter_agent (returning (PhaseHunterAgent_analyze engine_replies))
          ''300750'' ())) = None
 \<and> field_names (fst (run_phase_hunter_agent (returning (PhaseHunterAgent_analyze no_data))
          ''300750'' ())) = Some phase_hunter_fields"
proof -
  have c: "field_names (phase_hunter_fallback reason_analyze_failed value_error)
           = Some phase_hunter_fields"
    using phase_hunter_fallback_shaped[of reason_analyze_failed value_error]
    by (simp add: fallback_shaped_def)
  have d: "field_names (Reply ''ok'') = None"
    by (simp add: field_names_def)
  show ?thesis
    unfolding runner_of_returning PhaseHunterAgent_analyze_def analyze_with_engine_replies
      analyze_with_no_data_example
    using c d by simp
qed


section \<open>Properties of the orchestrator\<close>








end
